theory Spec2Isabelle
  imports Main "HOL-Library.AList"
begin

section \<open>Values, columns and frames\<close>

text \<open>
  The program (\<^verbatim>\<open>csds397_ia2_create_database.py\<close>) works on pandas data frames.
  A frame is modelled column by column, as pandas stores it: an ordered association list
  from column names to columns, every column a list of cells. Rows are identified by their
  position; a frame read from the store has a unique row label per position and pandas
  keeps the labels of the rows that survive a filter, so positions and labels agree.

  A cell is a missing value, an integer, a string or a timestamp. A string is a Python
  \<^verbatim>\<open>str\<close>: a list of Unicode code points. \<open>Null\<close> stands for SQL NULL as \<^verbatim>\<open>read_sql\<close>
  delivers it (\<^verbatim>\<open>None\<close> in a text column, \<^verbatim>\<open>NaN\<close>/\<^verbatim>\<open>NaT\<close> in a numeric or datetime column);
  \<^verbatim>\<open>isnull\<close>, \<^verbatim>\<open>fillna\<close> and \<^verbatim>\<open>drop_duplicates\<close> treat all of them as the one missing value. The numeric columns of the store are INT columns, so a
  number is an \<open>int\<close>. Timestamps are kept at the granularity of a day, which is all
  that \<^verbatim>\<open>strftime("%Y-%m-%d")\<close> reads of them.
\<close>

datatype date = Date (year: int) (month: int) (day: int)

type_synonym ustring = "int list"

datatype cell = Null | IntV int | StrV ustring | TsV date

text \<open>The text of an ASCII literal of the source, and the cell that holds it.\<close>

definition text_of :: "string \<Rightarrow> ustring" where
  "text_of s = map of_char s"

definition Str :: "string \<Rightarrow> cell" where
  "Str s = StrV (text_of s)"

type_synonym series = "cell list"

type_synonym dataframe = "(string \<times> series) list"

datatype py_error = KeyError string | ValueError | AttributeError

definition columns :: "dataframe \<Rightarrow> string list" where
  "columns df = map fst df"

text \<open>\<^verbatim>\<open>df.shape[0]\<close>: the number of rows (0 for a frame without columns).\<close>

definition nrows :: "dataframe \<Rightarrow> nat" where
  "nrows df = (case df of [] \<Rightarrow> 0 | (c, xs) # _ \<Rightarrow> length xs)"

text \<open>
  The invariant of a pandas frame as the program meets it: column names are unique and
  all columns have the same length.
\<close>

definition wf_df :: "dataframe \<Rightarrow> bool" where
  "wf_df df = (distinct (columns df) \<and> list_all (\<lambda>(c, xs). length xs = nrows df) df)"

text \<open>\<^verbatim>\<open>df[c]\<close> raises \<^verbatim>\<open>KeyError\<close> for a column that is not there.\<close>

definition getcol :: "dataframe \<Rightarrow> string \<Rightarrow> py_error + series" where
  "getcol df c = (case map_of df c of None \<Rightarrow> Inl (KeyError c) | Some xs \<Rightarrow> Inr xs)"

text \<open>
  \<^verbatim>\<open>df[c] = xs\<close> replaces the column in place when it exists and appends it as the last
  column otherwise.
\<close>

definition setcol :: "dataframe \<Rightarrow> string \<Rightarrow> series \<Rightarrow> dataframe" where
  "setcol df c xs = AList.update c xs df"

text \<open>\<^verbatim>\<open>df.drop(columns=[c], inplace=True)\<close>.\<close>

definition dropcol :: "dataframe \<Rightarrow> string \<Rightarrow> py_error + dataframe" where
  "dropcol df c = (if c \<in> set (columns df) then Inr (AList.delete c df) else Inl (KeyError c))"

text \<open>Sequencing of steps that may raise: the first exception ends the computation.\<close>

definition ebind :: "py_error + 'a \<Rightarrow> ('a \<Rightarrow> py_error + 'b) \<Rightarrow> py_error + 'b" where
  "ebind m f = (case m of Inl e \<Rightarrow> Inl e | Inr x \<Rightarrow> f x)"

text \<open>\<^verbatim>\<open>df[c] = f(df[c])\<close>: read a column, transform it, store it under the same name.\<close>

definition update_col :: "dataframe \<Rightarrow> string \<Rightarrow> (series \<Rightarrow> series) \<Rightarrow> py_error + dataframe" where
  "update_col df c f = ebind (getcol df c) (\<lambda>xs. Inr (setcol df c (f xs)))"

text \<open>Boolean indexing \<^verbatim>\<open>df[mask]\<close>: the rows whose mask entry is true, in order.\<close>

definition select :: "bool list \<Rightarrow> 'a list \<Rightarrow> 'a list" where
  "select keep xs = map snd (filter fst (zip keep xs))"

definition filter_rows :: "bool list \<Rightarrow> dataframe \<Rightarrow> dataframe" where
  "filter_rows keep df = map (\<lambda>(c, xs). (c, select keep xs)) df"

definition isnull :: "cell \<Rightarrow> bool" where
  "isnull c = (c = Null)"

text \<open>\<^verbatim>\<open>Series.fillna(v)\<close> with a scalar, and with a series aligned row by row.\<close>

definition fillna :: "cell \<Rightarrow> series \<Rightarrow> series" where
  "fillna v xs = map (\<lambda>c. if isnull c then v else c) xs"

definition fillna_series :: "series \<Rightarrow> series \<Rightarrow> series" where
  "fillna_series other xs = map (\<lambda>(c, d). if isnull c then d else c) (zip xs other)"

section \<open>Strings\<close>

text \<open>
  The string methods that pandas applies element by element are those of Python's \<^verbatim>\<open>str\<close>,
  modelled as CPython computes them. Whitespace is what \<^verbatim>\<open>str.isspace\<close>, \<^verbatim>\<open>str.strip()\<close>
  and \<^verbatim>\<open>\s\<close> in a pattern over \<^verbatim>\<open>str\<close> accept: the code points U+0009 to U+000D, U+001C to U+0020, U+0085, U+00A0,
  U+1680, U+2000 to U+200A, U+2028, U+2029, U+202F, U+205F and U+3000.
\<close>

definition is_space :: "int \<Rightarrow> bool" where
  "is_space c =
     ((9 \<le> c \<and> c \<le> 13) \<or> (28 \<le> c \<and> c \<le> 32) \<or> c = 133 \<or> c = 160 \<or> c = 5760
      \<or> (8192 \<le> c \<and> c \<le> 8202) \<or> c = 8232 \<or> c = 8233 \<or> c = 8239 \<or> c = 8287 \<or> c = 12288)"

text \<open>
  Case is decided by the Unicode character database that Python is built with. That
  table is data, not code of this program: it is the parameter \<open>U\<close>, with the five
  entries that the string methods read of a code point: its full upper, lower and title
  case mappings (one code point may map to several) and the properties Cased and
  Case_Ignorable.
\<close>

record ucd =
  upper_full :: "int \<Rightarrow> ustring"
  lower_full :: "int \<Rightarrow> ustring"
  title_full :: "int \<Rightarrow> ustring"
  cased :: "int \<Rightarrow> bool"
  case_ignorable :: "int \<Rightarrow> bool"

text \<open>\<^verbatim>\<open>str.upper()\<close>, \<^verbatim>\<open>str.strip()\<close> and \<^verbatim>\<open>str.replace(r'\s+', '', regex=True)\<close>.\<close>

definition str_upper :: "ucd \<Rightarrow> ustring \<Rightarrow> ustring" where
  "str_upper U s = concat (map (upper_full U) s)"

definition str_strip :: "ustring \<Rightarrow> ustring" where
  "str_strip s = rev (dropWhile is_space (rev (dropWhile is_space s)))"

definition remove_ws :: "ustring \<Rightarrow> ustring" where
  "remove_ws s = filter (\<lambda>c. \<not> is_space c) s"

text \<open>
  Lower case of one character in its context: the capital sigma U+03A3 becomes the
  final sigma U+03C2 when a cased character comes before it and none after it, case
  ignorable characters skipped, and the small sigma U+03C3 otherwise. \<open>pre\<close> holds
  the characters before it, the nearest first; \<open>post\<close> those after it.
\<close>

definition final_sigma :: "ucd \<Rightarrow> ustring \<Rightarrow> ustring \<Rightarrow> bool" where
  "final_sigma U pre post =
     ((case dropWhile (case_ignorable U) pre of [] \<Rightarrow> False | p # _ \<Rightarrow> cased U p) \<and>
      (case dropWhile (case_ignorable U) post of [] \<Rightarrow> True | n # _ \<Rightarrow> \<not> cased U n))"

definition lower_ucs4 :: "ucd \<Rightarrow> ustring \<Rightarrow> int \<Rightarrow> ustring \<Rightarrow> ustring" where
  "lower_ucs4 U pre c post =
     (if c = 931 then [if final_sigma U pre post then 962 else 963] else lower_full U c)"

text \<open>
  \<^verbatim>\<open>str.title()\<close>: a character is put in lower case when the character before it is
  cased, and in title case otherwise (also when there is none before it). The flag says
  whether the previous character was cased.
\<close>

fun title_from :: "ucd \<Rightarrow> bool \<Rightarrow> ustring \<Rightarrow> ustring \<Rightarrow> ustring" where
  "title_from U prev pre [] = []"
| "title_from U prev pre (c # s) =
     (if prev then lower_ucs4 U pre c s else title_full U c)
       @ title_from U (cased U c) (c # pre) s"

definition str_title :: "ucd \<Rightarrow> ustring \<Rightarrow> ustring" where
  "str_title U s = title_from U False [] s"

text \<open>Decimal digits and \<^verbatim>\<open>str()\<close> of an integer.\<close>

definition digit :: "int \<Rightarrow> int" where
  "digit n = 48 + n mod 10"

definition is_digit :: "int \<Rightarrow> bool" where
  "is_digit c = (48 \<le> c \<and> c \<le> 57)"

fun str_of_nat :: "nat \<Rightarrow> ustring" where
  "str_of_nat n = (if n < 10 then [digit (int n)] else str_of_nat (n div 10) @ [digit (int n)])"

declare str_of_nat.simps [simp del]

definition str_of_int :: "int \<Rightarrow> ustring" where
  "str_of_int i = (if i < 0 then 45 # str_of_nat (nat (- i)) else str_of_nat (nat i))"

section \<open>Dates\<close>

definition leap_year :: "int \<Rightarrow> bool" where
  "leap_year y = (y mod 4 = 0 \<and> (y mod 100 \<noteq> 0 \<or> y mod 400 = 0))"

definition days_in_month :: "int \<Rightarrow> int \<Rightarrow> int" where
  "days_in_month y m =
     (if m = 2 then (if leap_year y then 29 else 28)
      else if m = 4 \<or> m = 6 \<or> m = 9 \<or> m = 11 then 30 else 31)"

definition date_le :: "date \<Rightarrow> date \<Rightarrow> bool" where
  "date_le a b =
     (year a < year b \<or> (year a = year b \<and>
        (month a < month b \<or> (month a = month b \<and> day a \<le> day b))))"

text \<open>
  The days on which a pandas \<^verbatim>\<open>Timestamp\<close> (64-bit nanoseconds since 1970, the
  resolution of a column parsed from strings in pandas 1 and 2) can fall: from 1677-09-21
  (of which it holds the instants after 00:12:43) to 2262-04-11 (of which it holds those
  before 23:47:17).
\<close>

definition valid_ts :: "date \<Rightarrow> bool" where
  "valid_ts d =
     (1 \<le> month d \<and> month d \<le> 12 \<and> 1 \<le> day d \<and> day d \<le> days_in_month (year d) (month d)
      \<and> date_le (Date 1677 9 21) d \<and> date_le d (Date 2262 4 11))"

text \<open>
  The days whose midnight a timestamp holds: all but the first. A string that names a
  day and no time of day is read as the midnight of that day.
\<close>

definition midnight_ts :: "date \<Rightarrow> bool" where
  "midnight_ts d = (valid_ts d \<and> date_le (Date 1677 9 22) d)"

text \<open>\<^verbatim>\<open>strftime("%Y-%m-%d")\<close>: four digits of the year, two of the month, two of the day.\<close>

definition strftime_ymd :: "date \<Rightarrow> ustring" where
  "strftime_ymd d =
     [digit (year d div 1000), digit (year d div 100), digit (year d div 10), digit (year d),
      45, digit (month d div 10), digit (month d),
      45, digit (day d div 10), digit (day d)]"

text \<open>
  \<^verbatim>\<open>astype(str)\<close> applies \<^verbatim>\<open>str()\<close> to every element of an object column, missing values
  included: \<^verbatim>\<open>None\<close> becomes the four characters \<^verbatim>\<open>None\<close>. The text columns of a frame
  that \<^verbatim>\<open>read_sql\<close> returns are object columns (pandas 1 and 2), and a timestamp prints
  with its time of day.
\<close>

definition astype_str :: "cell \<Rightarrow> ustring" where
  "astype_str c =
     (case c of Null \<Rightarrow> text_of ''None'' | IntV i \<Rightarrow> str_of_int i | StrV s \<Rightarrow> s
      | TsV d \<Rightarrow> strftime_ymd d @ text_of '' 00:00:00'')"

text \<open>
  \<^verbatim>\<open>pd.to_datetime(column, errors='coerce')\<close>. Which strings pandas reads as dates is
  decided by its parser (a format guessed from the column, then \<^verbatim>\<open>dateutil\<close>), which is
  not code of this program: it is the field \<open>parse\<close> of the parameter \<open>P\<close>, given the
  whole column and the cell. What \<^verbatim>\<open>errors='coerce'\<close> adds is fixed: a missing value, an
  unreadable value and a date no \<^verbatim>\<open>Timestamp\<close> falls on all become \<^verbatim>\<open>NaT\<close>.

  pandas also decides the type of the column it returns. The accessor \<^verbatim>\<open>.dt\<close> exists on
  a datetime column only; on a column of another type (as a column of dates that carry
  time zones becomes once a default without time zone is written into it) it raises
  \<^verbatim>\<open>AttributeError\<close>. The field \<open>datetimelike\<close> says, for a raw column, whether the column
  parsed from it and filled with the default is a datetime column.
\<close>

record date_parser =
  parse :: "series \<Rightarrow> cell \<Rightarrow> date option"
  datetimelike :: "series \<Rightarrow> bool"

definition to_datetime1 :: "date_parser \<Rightarrow> series \<Rightarrow> cell \<Rightarrow> cell" where
  "to_datetime1 P xs c =
     (if isnull c then Null
      else case parse P xs c of None \<Rightarrow> Null | Some d \<Rightarrow> if valid_ts d then TsV d else Null)"

definition to_datetime :: "date_parser \<Rightarrow> series \<Rightarrow> series" where
  "to_datetime P xs = map (to_datetime1 P xs) xs"

text \<open>
  \<^verbatim>\<open>Series.dt.strftime("%Y-%m-%d")\<close> on the column parsed from \<open>raw\<close>: \<^verbatim>\<open>NaT\<close> stays
  missing.
\<close>

definition dt_strftime :: "date_parser \<Rightarrow> series \<Rightarrow> series \<Rightarrow> py_error + series" where
  "dt_strftime P raw xs =
     (if datetimelike P raw
      then Inr (map (\<lambda>c. case c of TsV d \<Rightarrow> StrV (strftime_ymd d) | _ \<Rightarrow> Null) xs)
      else Inl AttributeError)"

section \<open>The cleaning rules: \<^verbatim>\<open>clean_data\<close>\<close>

text \<open>The dictionary \<^verbatim>\<open>dept_mapping\<close> of the source, entry by entry.\<close>

definition dept_table :: "(string \<times> string) list" where
  "dept_table =
     [(''OPERATIONS'', ''OPERATIONS''),
      (''OPRATIONS'', ''OPERATIONS''),
      (''CUSTOMERSUPPORT'', ''CUSTOMER SUPPORT''),
      (''CUSTSUPPORT'', ''CUSTOMER SUPPORT''),
      (''HR'', ''HR''),
      (''IT'', ''IT''),
      (''LOGISTICS'', ''LOGISTICS''),
      (''LOGSTICS'', ''LOGISTICS''),
      (''LEGAL'', ''LEGAL''),
      (''LEGL'', ''LEGAL''),
      (''MARKETING'', ''MARKETING''),
      (''MARKNG'', ''MARKETING''),
      (''MARKTING'', ''MARKETING''),
      (''SALES'', ''SALES''),
      (''FINANCE'', ''FINANCE''),
      (''FIN'', ''FINANCE''),
      (''FINANACE'', ''FINANCE''),
      (''R&D'', ''R&D''),
      (''RND'', ''R&D''),
      (''RESEARCH'', ''R&D''),
      (''SUPPORT'', ''CUSTOMER SUPPORT''),
      (''HUMANRESOURCES'', ''HR'')]"

definition dept_mapping :: "ustring \<rightharpoonup> ustring" where
  "dept_mapping = map_of (map (\<lambda>(k, v). (text_of k, text_of v)) dept_table)"

text \<open>\<^verbatim>\<open>Series.map(dict)\<close>: a value that is not a key of the dictionary becomes missing.\<close>

definition series_map :: "(ustring \<rightharpoonup> ustring) \<Rightarrow> series \<Rightarrow> series" where
  "series_map m xs =
     map (\<lambda>c. case c of StrV s \<Rightarrow> (case m s of Some v \<Rightarrow> StrV v | None \<Rightarrow> Null) | _ \<Rightarrow> Null) xs"

text \<open>
  \<^verbatim>\<open>duplicated(keep="first")\<close> on one column: a row is a duplicate when its value has been
  seen in an earlier row. Missing values are equal to each other here.
\<close>

fun duplicated_from :: "cell list \<Rightarrow> series \<Rightarrow> bool list" where
  "duplicated_from seen [] = []"
| "duplicated_from seen (x # xs) = (x \<in> set seen) # duplicated_from (x # seen) xs"

definition duplicated :: "series \<Rightarrow> bool list" where
  "duplicated xs = duplicated_from [] xs"

text \<open>Step 1 of \<^verbatim>\<open>clean_data\<close>: the four defaults for missing values.\<close>

definition resolve_missing :: "dataframe \<Rightarrow> py_error + dataframe" where
  "resolve_missing df0 =
     ebind (update_col df0 ''Name'' (fillna (Str ''Unknown''))) (\<lambda>df1.
     ebind (update_col df1 ''Performance_Rating'' (fillna (Str ''Unknown''))) (\<lambda>df2.
     ebind (update_col df2 ''Country'' (fillna (Str ''Unknown''))) (\<lambda>df3.
     update_col df3 ''Years_of_Experience'' (fillna (IntV (- 1))))))"

text \<open>
  Step 2: the working column \<^verbatim>\<open>Date_Parsed\<close> is written, its missing entries are set to
  the timestamp 1900-01-01, the join date is rewritten from it through \<^verbatim>\<open>.dt\<close>, and it is
  dropped.
\<close>

definition standardize_dates :: "date_parser \<Rightarrow> dataframe \<Rightarrow> py_error + dataframe" where
  "standardize_dates P df0 =
     ebind (getcol df0 ''Date_of_Joining'') (\<lambda>dates.
     ebind (update_col (setcol df0 ''Date_Parsed'' (to_datetime P dates)) ''Date_Parsed''
              (fillna (TsV (Date 1900 1 1)))) (\<lambda>df1.
     ebind (getcol df1 ''Date_Parsed'') (\<lambda>parsed.
     ebind (dt_strftime P dates parsed) (\<lambda>iso.
     dropcol (setcol df1 ''Date_of_Joining'' iso) ''Date_Parsed''))))"

text \<open>Step 3: \<^verbatim>\<open>drop_duplicates(subset=[id_column], keep="first")\<close>.\<close>

definition id_column :: "dataframe \<Rightarrow> string" where
  "id_column df = (if ''Employee Id'' \<in> set (columns df) then ''Employee Id'' else ''Employee_ID'')"

definition deduplicate :: "dataframe \<Rightarrow> py_error + dataframe" where
  "deduplicate df =
     ebind (getcol df (id_column df)) (\<lambda>ids. Inr (filter_rows (map Not (duplicated ids)) df))"

text \<open>Step 4: the text columns.\<close>

definition norm_name :: "ucd \<Rightarrow> cell \<Rightarrow> cell" where
  "norm_name U c = StrV (str_title U (str_strip (astype_str c)))"

definition norm_dept :: "ucd \<Rightarrow> cell \<Rightarrow> cell" where
  "norm_dept U c = StrV (str_upper U (remove_ws (astype_str c)))"

definition normalize_text :: "ucd \<Rightarrow> dataframe \<Rightarrow> py_error + dataframe" where
  "normalize_text U df0 =
     ebind (update_col df0 ''Name'' (map (norm_name U))) (\<lambda>df1.
     ebind (update_col df1 ''Department'' (map (norm_dept U))) (\<lambda>df2.
     ebind (update_col df2 ''Department'' (\<lambda>xs. fillna_series xs (series_map dept_mapping xs))) (\<lambda>df3.
     if ''Country'' \<in> set (columns df3) then update_col df3 ''Country'' (map (norm_name U))
     else Inr df3)))"

text \<open>
  \<^verbatim>\<open>clean_data\<close> works on a copy of its argument and returns the cleaned copy. The line
  it prints (the number of rows dropped) is not part of the model.
\<close>

definition clean_data :: "ucd \<Rightarrow> date_parser \<Rightarrow> dataframe \<Rightarrow> py_error + dataframe" where
  "clean_data U P df =
     ebind (resolve_missing df) (\<lambda>df1.
     ebind (standardize_dates P df1) (\<lambda>df2.
     ebind (deduplicate df2) (normalize_text U)))"

section \<open>A concrete parser and a concrete character table\<close>

text \<open>
  The one format every date parser reads: ten characters \<^verbatim>\<open>YYYY-MM-DD\<close>, which carry no
  time zone and name the midnight of a day. It serves as the parser where a concrete one
  is needed.
\<close>

definition digit_val :: "int \<Rightarrow> int" where
  "digit_val c = c - 48"

fun parse_ymd :: "ustring \<Rightarrow> date option" where
  "parse_ymd [y1, y2, y3, y4, s1, m1, m2, s2, d1, d2] =
     (if list_all is_digit [y1, y2, y3, y4, m1, m2, d1, d2] \<and> s1 = 45 \<and> s2 = 45
      then Some (Date (1000 * digit_val y1 + 100 * digit_val y2 + 10 * digit_val y3 + digit_val y4)
                      (10 * digit_val m1 + digit_val m2) (10 * digit_val d1 + digit_val d2))
      else None)"
| "parse_ymd _ = None"

definition iso_parser :: date_parser where
  "iso_parser =
     \<lparr>parse = (\<lambda>xs c. case c of
                  StrV s \<Rightarrow> (case parse_ymd s of
                              Some d \<Rightarrow> if midnight_ts d then Some d else None
                            | None \<Rightarrow> None)
                | _ \<Rightarrow> None),
      datetimelike = (\<lambda>xs. True)\<rparr>"

text \<open>
  The entries of the Unicode character database for the ASCII characters, for U+0130
  (capital I with dot above, whose lower case is \<^verbatim>\<open>i\<close> followed by the combining dot
  U+0307) and for U+0307. It serves as the table where a concrete one is needed, on
  text of these characters; every other code point is entered without case.
\<close>

definition ascii_lower :: "int \<Rightarrow> bool" where
  "ascii_lower c = (97 \<le> c \<and> c \<le> 122)"

definition ascii_upper :: "int \<Rightarrow> bool" where
  "ascii_upper c = (65 \<le> c \<and> c \<le> 90)"

definition ascii_to_upper :: "int \<Rightarrow> int" where
  "ascii_to_upper c = (if ascii_lower c then c - 32 else c)"

definition ascii_to_lower :: "int \<Rightarrow> int" where
  "ascii_to_lower c = (if ascii_upper c then c + 32 else c)"

definition example_ucd :: ucd where
  "example_ucd =
     \<lparr>upper_full = (\<lambda>c. [ascii_to_upper c]),
      lower_full = (\<lambda>c. if c = 304 then [105, 775] else [ascii_to_lower c]),
      title_full = (\<lambda>c. [ascii_to_upper c]),
      cased = (\<lambda>c. ascii_lower c \<or> ascii_upper c \<or> c = 304),
      case_ignorable = (\<lambda>c. c = 39 \<or> c = 46 \<or> c = 58 \<or> c = 94 \<or> c = 96 \<or> c = 775)\<rparr>"

section \<open>The profiling report: \<^verbatim>\<open>profile_data\<close>\<close>

text \<open>
  \<^verbatim>\<open>duplicated(subset=[id, name], keep=False)\<close>: every row whose pair of values occurs in
  more than one row.
\<close>

definition duplicated_all :: "'a list \<Rightarrow> bool list" where
  "duplicated_all ks = map (\<lambda>k. 1 < count_list ks k) ks"

definition date_column :: "dataframe \<Rightarrow> string" where
  "date_column df =
     (if ''Date of Joining'' \<in> set (columns df) then ''Date of Joining'' else ''Date_of_Joining'')"

text \<open>\<^verbatim>\<open>df[[c1, c2, ...]]\<close>: the named columns in the given order.\<close>

fun select_cols :: "dataframe \<Rightarrow> string list \<Rightarrow> py_error + dataframe" where
  "select_cols df [] = Inr []"
| "select_cols df (c # cs) =
     ebind (getcol df c) (\<lambda>xs. ebind (select_cols df cs) (\<lambda>rest. Inr ((c, xs) # rest)))"

text \<open>\<^verbatim>\<open>Series.unique()\<close>: the distinct values in order of first appearance.\<close>

definition unique :: "series \<Rightarrow> series" where
  "unique xs = select (map Not (duplicated xs)) xs"

record report =
  shape :: "nat \<times> nat"
  missing_values :: "(string \<times> nat) list"
  duplicate_records :: dataframe
  invalid_dates :: dataframe
  departments :: series

text \<open>
  \<^verbatim>\<open>profile_data\<close> works on the frame it is given, not on a copy: it writes and drops the
  working column \<^verbatim>\<open>Parsed_Date\<close> in place. The model returns what the call did (the report
  it printed, or the exception it raised) together with the frame as the call left it.
  The numeric summary \<^verbatim>\<open>describe()\<close> is floating-point statistics and is left out of the
  report; what is kept of it is that it raises for a frame without columns.
\<close>

definition profile_data :: "date_parser \<Rightarrow> dataframe \<Rightarrow> (py_error + report) \<times> dataframe" where
  "profile_data P df =
     (if df = [] then (Inl ValueError, df)
      else
        case ebind (getcol df (id_column df)) (\<lambda>ids.
             ebind (getcol df ''Name'') (\<lambda>names.
             Inr (filter_rows (duplicated_all (zip ids names)) df))) of
          Inl e \<Rightarrow> (Inl e, df)
        | Inr dups \<Rightarrow>
            (case getcol df (date_column df) of
               Inl e \<Rightarrow> (Inl e, df)
             | Inr dates \<Rightarrow>
                 let df1 = setcol df ''Parsed_Date'' (to_datetime P dates) in
                 (case ebind (getcol df1 ''Parsed_Date'') (\<lambda>parsed.
                       ebind (getcol df1 (date_column df)) (\<lambda>raw.
                       select_cols
                         (filter_rows (map (\<lambda>(p, d). isnull p \<and> \<not> isnull d) (zip parsed raw)) df1)
                         [id_column df, date_column df])) of
                    Inl e \<Rightarrow> (Inl e, df1)
                  | Inr invalid \<Rightarrow>
                      (case dropcol df1 ''Parsed_Date'' of
                         Inl e \<Rightarrow> (Inl e, df1)
                       | Inr df2 \<Rightarrow>
                           (case getcol df2 ''Department'' of
                              Inl e \<Rightarrow> (Inl e, df2)
                            | Inr depts \<Rightarrow>
                                (Inr \<lparr>shape = (nrows df, length df),
                                      missing_values = map (\<lambda>(c, xs). (c, length (filter isnull xs))) df,
                                      duplicate_records = dups,
                                      invalid_dates = invalid,
                                      departments = unique depts\<rparr>, df2))))))"

section \<open>The canonical load: \<^verbatim>\<open>load_clean_data_to_final_table\<close>\<close>

text \<open>
  The relational store is external; what the program fixes of it is the schema of
  \<^verbatim>\<open>employee_data\<close>: nine columns, \<^verbatim>\<open>Employee_ID INT PRIMARY KEY\<close>. A table is the list of
  its committed rows, a row the list of its nine values, the key first. An insert fails on
  the first row whose key is missing or already in the table. The store is taken to be
  reachable: the validation query and the export do not fail.
\<close>

type_synonym db_row = "cell list"

datatype db_error = DuplicateEntry cell | NullKey

definition row_key :: "db_row \<Rightarrow> cell" where
  "row_key r = (case r of [] \<Rightarrow> Null | k # _ \<Rightarrow> k)"

fun insert_rows :: "db_row list \<Rightarrow> db_row list \<Rightarrow> db_error + db_row list" where
  "insert_rows tbl [] = Inr tbl"
| "insert_rows tbl (r # rs) =
     (if isnull (row_key r) then Inl NullKey
      else if row_key r \<in> set (map row_key tbl) then Inl (DuplicateEntry (row_key r))
      else insert_rows (tbl @ [r]) rs)"

record store =
  employee_data :: "db_row list"
  csv_file :: "db_row list option"

datatype message =
    SampleRow db_row
  | InsertOk
  | InsertError db_error
  | Preview "db_row list"
  | TotalRecords nat
  | Exported

text \<open>The rows of a frame: \<^verbatim>\<open>df.values\<close>.\<close>

definition to_rows :: "dataframe \<Rightarrow> db_row list" where
  "to_rows df = map (\<lambda>i. map (\<lambda>(c, xs). xs ! i) df) [0..<nrows df]"

text \<open>
  The result is what the caller sees (an exception, or the normal return), the store as
  the call leaves it, and the lines printed. Selecting the nine columns is outside any
  \<^verbatim>\<open>try\<close>: a missing column raises to the caller. The insert and its commit are inside
  \<^verbatim>\<open>try ... except Exception\<close>: a failure is printed, nothing is committed, and the
  function goes on to the validation query and the export.
\<close>

definition load_clean_data_to_final_table ::
    "store \<Rightarrow> dataframe \<Rightarrow> (py_error + unit) \<times> store \<times> message list" where
  "load_clean_data_to_final_table db cleaned_df =
     (case select_cols cleaned_df
             [id_column cleaned_df, ''Name'', ''Age'', ''Department'', ''Date_of_Joining'',
              ''Years_of_Experience'', ''Country'', ''Salary'', ''Performance_Rating''] of
        Inl e \<Rightarrow> (Inl e, db, [])
      | Inr proj \<Rightarrow>
          let data_to_insert = to_rows proj;
              sample = map SampleRow (take 5 data_to_insert);
              (db1, msg) =
                (case insert_rows (employee_data db) data_to_insert of
                   Inr tbl \<Rightarrow> (db\<lparr>employee_data := tbl\<rparr>, InsertOk)
                 | Inl e \<Rightarrow> (db, InsertError e));
              final_df = employee_data db1
          in (Inr (), db1\<lparr>csv_file := Some final_df\<rparr>,
              sample @ [msg, Preview (take 5 final_df), TotalRecords (length final_df), Exported]))"

section \<open>Notions used to state the properties\<close>

text \<open>What \<^verbatim>\<open>fillna\<close> does to one cell.\<close>

definition fill :: "cell \<Rightarrow> cell \<Rightarrow> cell" where
  "fill v c = (if isnull c then v else c)"

text \<open>
  The join date of one row as the date rule leaves it: the ISO form of the date read
  from it, or of 1900-01-01 when none was read.
\<close>

definition iso_or_default :: "date_parser \<Rightarrow> series \<Rightarrow> cell \<Rightarrow> cell" where
  "iso_or_default P dates c =
     (case to_datetime1 P dates c of TsV d \<Rightarrow> StrV (strftime_ymd d)
      | _ \<Rightarrow> StrV (strftime_ymd (Date 1900 1 1)))"

text \<open>The canonical label of a department string, the string itself when it is no key.\<close>

definition canon_dept :: "cell \<Rightarrow> cell" where
  "canon_dept c =
     (case c of StrV s \<Rightarrow> (case dept_mapping s of Some v \<Rightarrow> StrV v | None \<Rightarrow> StrV s) | _ \<Rightarrow> c)"

text \<open>The effect of all rules on one cell of column \<open>c\<close>; \<open>dates\<close> is the raw date column.\<close>

definition clean_cell :: "ucd \<Rightarrow> date_parser \<Rightarrow> series \<Rightarrow> string \<Rightarrow> cell \<Rightarrow> cell" where
  "clean_cell U P dates c x =
     (if c = ''Name'' \<or> c = ''Country'' then norm_name U (fill (Str ''Unknown'') x)
      else if c = ''Performance_Rating'' then fill (Str ''Unknown'') x
      else if c = ''Years_of_Experience'' then fill (IntV (- 1)) x
      else if c = ''Date_of_Joining'' then iso_or_default P dates x
      else if c = ''Department'' then canon_dept (norm_dept U x)
      else x)"

text \<open>The effect on one cell of step 1 alone, and of step 4 alone.\<close>

definition rule1 :: "string \<Rightarrow> cell \<Rightarrow> cell" where
  "rule1 c x =
     (if c = ''Name'' \<or> c = ''Country'' \<or> c = ''Performance_Rating'' then fill (Str ''Unknown'') x
      else if c = ''Years_of_Experience'' then fill (IntV (- 1)) x
      else x)"

definition rule4 :: "ucd \<Rightarrow> string \<Rightarrow> cell \<Rightarrow> cell" where
  "rule4 U c x =
     (if c = ''Name'' \<or> c = ''Country'' then norm_name U x
      else if c = ''Department'' then canon_dept (norm_dept U x)
      else x)"

text \<open>A step that changes cells only, column by column.\<close>

definition cellwise :: "(string \<Rightarrow> cell \<Rightarrow> cell) \<Rightarrow> dataframe \<Rightarrow> dataframe \<Rightarrow> bool" where
  "cellwise r df df' =
     (columns df' = columns df \<and> (\<forall>c. map_of df' c = map_option (map (r c)) (map_of df c)))"

text \<open>
  The rows that deduplication keeps, as a mask over the input rows, and the position in
  the output of a kept input row: the number of kept rows before it.
\<close>

definition keep_mask :: "series \<Rightarrow> bool list" where
  "keep_mask ids = map Not (duplicated ids)"

definition out_pos :: "bool list \<Rightarrow> nat \<Rightarrow> nat" where
  "out_pos ks i = length (filter (\<lambda>b. b) (take i ks))"


text \<open>The pattern \<^verbatim>\<open>YYYY-MM-DD\<close>.\<close>

fun matches_ymd :: "ustring \<Rightarrow> bool" where
  "matches_ymd [y1, y2, y3, y4, s1, m1, m2, s2, d1, d2] =
     (list_all is_digit [y1, y2, y3, y4, m1, m2, d1, d2] \<and> s1 = 45 \<and> s2 = 45)"
| "matches_ymd _ = False"



text \<open>
  ASCII text. On the ASCII characters every Unicode character database has the same
  entries: the letters \<^verbatim>\<open>a\<close> to \<^verbatim>\<open>z\<close> and \<^verbatim>\<open>A\<close> to \<^verbatim>\<open>Z\<close> are cased and map to each other,
  one to one, and no other character has case.
\<close>

definition is_ascii :: "int \<Rightarrow> bool" where
  "is_ascii c = (0 \<le> c \<and> c < 128)"

definition ascii_db :: "ucd \<Rightarrow> bool" where
  "ascii_db U =
     (\<forall>c. is_ascii c \<longrightarrow>
        upper_full U c = [ascii_to_upper c] \<and> lower_full U c = [ascii_to_lower c] \<and>
        title_full U c = [ascii_to_upper c] \<and> cased U c = (ascii_lower c \<or> ascii_upper c))"

definition ascii_cell :: "cell \<Rightarrow> bool" where
  "ascii_cell x = (case x of StrV s \<Rightarrow> list_all is_ascii s | _ \<Rightarrow> True)"

text \<open>
  What \<^verbatim>\<open>str.title()\<close> makes of ASCII text: a letter is put in lower case behind a
  letter and in upper case otherwise.
\<close>

fun ascii_title_from :: "bool \<Rightarrow> ustring \<Rightarrow> ustring" where
  "ascii_title_from prev [] = []"
| "ascii_title_from prev (c # s) =
     (if prev then ascii_to_lower c else ascii_to_upper c)
       # ascii_title_from (ascii_lower c \<or> ascii_upper c) s"


text \<open>The columns of the staging table as \<^verbatim>\<open>SELECT *\<close> returns them, and of the canonical table.\<close>

definition staging_columns :: "string list" where
  "staging_columns =
     [''id'', ''Employee_ID'', ''Name'', ''Age'', ''Department'', ''Date_of_Joining'',
      ''Years_of_Experience'', ''Country'', ''Salary'', ''Performance_Rating'']"

definition canonical_columns :: "string list" where
  "canonical_columns =
     [''Employee_ID'', ''Name'', ''Age'', ''Department'', ''Date_of_Joining'',
      ''Years_of_Experience'', ''Country'', ''Salary'', ''Performance_Rating'']"

section \<open>Example tables\<close>

text \<open>
  A staging table of five rows: the three rows of the scenario in the specification,
  then two rows without an identifier, the first of them with no name, department,
  experience, country or rating.
\<close>

definition raw_example :: dataframe where
  "raw_example =
     [(''id'', [IntV 1, IntV 2, IntV 3, IntV 4, IntV 5]),
      (''Employee_ID'', [IntV 1, IntV 1, IntV 2, Null, Null]),
      (''Name'', [Str ''john doe'', Str ''John Doe'', Str ''  jane '', Null, Str ''bob'']),
      (''Age'', [IntV 30, IntV 30, IntV 28, IntV 41, IntV 50]),
      (''Department'', [Str ''MARKNG'', Str ''Marketing'', Str ''oprations'', Null,
                        Str ''cust support'']),
      (''Date_of_Joining'', [Str ''13-01-2022'', Str ''2022-01-13'', Str ''not-a-date'',
                             Str ''2021-03-04'', Null]),
      (''Years_of_Experience'', [IntV 5, IntV 5, Null, Null, IntV 3]),
      (''Country'', [Str ''usa'', Str ''USA'', Null, Null, Str ''uk'']),
      (''Salary'', [IntV 50000, IntV 50000, IntV 40000, IntV 30000, IntV 10000]),
      (''Performance_Rating'', [Str ''Good'', Str ''Good'', Null, Null, Str ''Poor''])]"

text \<open>What \<^verbatim>\<open>clean_data\<close> returns for it: the rows 1, 3 and 4 of the five.\<close>

definition cleaned_example :: dataframe where
  "cleaned_example =
     [(''id'', [IntV 1, IntV 3, IntV 4]),
      (''Employee_ID'', [IntV 1, IntV 2, Null]),
      (''Name'', [Str ''John Doe'', Str ''Jane'', Str ''Unknown'']),
      (''Age'', [IntV 30, IntV 28, IntV 41]),
      (''Department'', [Str ''MARKETING'', Str ''OPERATIONS'', Str ''NONE'']),
      (''Date_of_Joining'', [Str ''1900-01-01'', Str ''1900-01-01'', Str ''2021-03-04'']),
      (''Years_of_Experience'', [IntV 5, IntV (- 1), IntV (- 1)]),
      (''Country'', [Str ''Usa'', Str ''Unknown'', Str ''Unknown'']),
      (''Salary'', [IntV 50000, IntV 40000, IntV 30000]),
      (''Performance_Rating'', [Str ''Good'', Str ''Unknown'', Str ''Unknown''])]"

text \<open>A staging table of one row whose department is NULL.\<close>

definition null_department_example :: dataframe where
  "null_department_example =
     [(''id'', [IntV 1]),
      (''Employee_ID'', [IntV 7]),
      (''Name'', [Str ''Ann Lee'']),
      (''Age'', [IntV 33]),
      (''Department'', [Null]),
      (''Date_of_Joining'', [Str ''2020-05-06'']),
      (''Years_of_Experience'', [IntV 4]),
      (''Country'', [Str ''Canada'']),
      (''Salary'', [IntV 60000]),
      (''Performance_Rating'', [Str ''Good''])]"

text \<open>A cleaned table in which two rows carry the identifier 1, and an empty store.\<close>

definition duplicate_key_example :: dataframe where
  "duplicate_key_example =
     [(''Employee_ID'', [IntV 1, IntV 1]),
      (''Name'', [Str ''John Doe'', Str ''Jane Roe'']),
      (''Age'', [IntV 30, IntV 28]),
      (''Department'', [Str ''MARKETING'', Str ''OPERATIONS'']),
      (''Date_of_Joining'', [Str ''2022-01-13'', Str ''1900-01-01'']),
      (''Years_of_Experience'', [IntV 5, IntV (- 1)]),
      (''Country'', [Str ''Usa'', Str ''Unknown'']),
      (''Salary'', [IntV 50000, IntV 40000]),
      (''Performance_Rating'', [Str ''Good'', Str ''Unknown''])]"

definition empty_store :: store where
  "empty_store = \<lparr>employee_data = [], csv_file = None\<rparr>"

text \<open>
  A staging table of three rows with three different identifiers, and what \<^verbatim>\<open>clean_data\<close>
  returns for it. The first department is written with blanks and in mixed case; the
  second is \<^verbatim>\<open>h\<close>, a no-break space (U+00A0) and \<^verbatim>\<open>r\<close>; the third is no key of the
  dictionary.
\<close>

definition department_example :: dataframe where
  "department_example =
     [(''id'', [IntV 1, IntV 2, IntV 3]),
      (''Employee_ID'', [IntV 11, IntV 12, IntV 13]),
      (''Name'', [Str ''Ann Lee'', Str ''Bo Chen'', Str ''Cy Diaz'']),
      (''Age'', [IntV 33, IntV 44, IntV 55]),
      (''Department'', [Str '' cust  Support '', StrV [104, 160, 114], Str ''Quality Assurance'']),
      (''Date_of_Joining'', [Str ''2020-05-06'', Str ''2020-05-07'', Str ''2020-05-08'']),
      (''Years_of_Experience'', [IntV 4, IntV 5, IntV 6]),
      (''Country'', [Str ''Canada'', Str ''Canada'', Str ''Canada'']),
      (''Salary'', [IntV 60000, IntV 70000, IntV 80000]),
      (''Performance_Rating'', [Str ''Good'', Str ''Good'', Str ''Good''])]"

definition department_cleaned :: dataframe where
  "department_cleaned =
     [(''id'', [IntV 1, IntV 2, IntV 3]),
      (''Employee_ID'', [IntV 11, IntV 12, IntV 13]),
      (''Name'', [Str ''Ann Lee'', Str ''Bo Chen'', Str ''Cy Diaz'']),
      (''Age'', [IntV 33, IntV 44, IntV 55]),
      (''Department'', [Str ''CUSTOMER SUPPORT'', Str ''HR'', Str ''QUALITYASSURANCE'']),
      (''Date_of_Joining'', [Str ''2020-05-06'', Str ''2020-05-07'', Str ''2020-05-08'']),
      (''Years_of_Experience'', [IntV 4, IntV 5, IntV 6]),
      (''Country'', [Str ''Canada'', Str ''Canada'', Str ''Canada'']),
      (''Salary'', [IntV 60000, IntV 70000, IntV 80000]),
      (''Performance_Rating'', [Str ''Good'', Str ''Good'', Str ''Good''])]"




section \<open>How \<^verbatim>\<open>clean_data\<close> computes each column\<close>

lemma ebind_Inr: "ebind m f = Inr y \<longleftrightarrow> (\<exists>x. m = Inr x \<and> f x = Inr y)"
  by (cases m) (simp_all add: ebind_def)

lemma getcol_Inr: "getcol df c = Inr xs \<longleftrightarrow> map_of df c = Some xs"
  by (simp add: getcol_def split: option.splits)

lemma in_columns: "c \<in> set (columns df) \<longleftrightarrow> map_of df c \<noteq> None"
  by (simp add: columns_def map_of_eq_None_iff)

lemma update_col_Inr:
  "update_col df k f = Inr df' \<longleftrightarrow> (\<exists>xs. map_of df k = Some xs \<and> df' = AList.update k (f xs) df)"
  by (auto simp: update_col_def ebind_Inr getcol_Inr setcol_def)

lemma cellwise_trans:
  "cellwise r df df' \<Longrightarrow> cellwise r' df' df'' \<Longrightarrow> cellwise (\<lambda>c. r' c \<circ> r c) df df''"
  by (simp add: cellwise_def option.map_comp)


lemma update_col_cellwise:
  assumes "update_col df k (map f) = Inr df'"
  shows "cellwise (\<lambda>c. if c = k then f else id) df df'" and "k \<in> set (columns df)"
proof -
  from assms obtain xs where xs: "map_of df k = Some xs" and df': "df' = AList.update k (map f xs) df"
    by (auto simp: update_col_Inr)
  from xs show k: "k \<in> set (columns df)" by (simp add: in_columns)
  show "cellwise (\<lambda>c. if c = k then f else id) df df'"
    using xs k by (simp add: cellwise_def df' columns_def update_keys update_conv' option.map_id0 id_def[symmetric])
qed

lemma fillna_map: "fillna v = map (fill v)"
  by (rule ext) (simp add: fillna_def fill_def)

lemma fillna_series_map: "fillna_series ys (series_map dept_mapping ys) = map canon_dept ys" 
  if "\<forall>y\<in>set ys. \<exists>s. y = StrV s"
  using that
  by (induction ys) (auto simp: fillna_series_def series_map_def canon_dept_def isnull_def split: option.splits)

lemma resolve_missing_cellwise:
  assumes "resolve_missing df = Inr df'"
  shows "cellwise rule1 df df'"
    and "{''Name'', ''Performance_Rating'', ''Country'', ''Years_of_Experience''} \<subseteq> set (columns df)"
proof -
  from assms obtain df1 df2 df3 where
    s1: "update_col df ''Name'' (map (fill (Str ''Unknown''))) = Inr df1" and
    s2: "update_col df1 ''Performance_Rating'' (map (fill (Str ''Unknown''))) = Inr df2" and
    s3: "update_col df2 ''Country'' (map (fill (Str ''Unknown''))) = Inr df3" and
    s4: "update_col df3 ''Years_of_Experience'' (map (fill (IntV (- 1)))) = Inr df'"
    by (auto simp: resolve_missing_def ebind_Inr fillna_map)
  note c1 = update_col_cellwise[OF s1] and c2 = update_col_cellwise[OF s2]
    and c3 = update_col_cellwise[OF s3] and c4 = update_col_cellwise[OF s4]
  have cols: "columns df1 = columns df" "columns df2 = columns df" "columns df3 = columns df"
    using c1(1) c2(1) c3(1) by (simp_all add: cellwise_def)
  show "{''Name'', ''Performance_Rating'', ''Country'', ''Years_of_Experience''} \<subseteq> set (columns df)"
    using c1(2) c2(2) c3(2) c4(2) cols by simp
  have "cellwise (\<lambda>c. (if c = ''Years_of_Experience'' then fill (IntV (- 1)) else id) \<circ>
          ((if c = ''Country'' then fill (Str ''Unknown'') else id) \<circ>
           ((if c = ''Performance_Rating'' then fill (Str ''Unknown'') else id) \<circ>
            (if c = ''Name'' then fill (Str ''Unknown'') else id)))) df df'"
    by (rule cellwise_trans[OF cellwise_trans[OF cellwise_trans[OF c1(1) c2(1)] c3(1)] c4(1)])
  moreover have "(\<lambda>c. (if c = ''Years_of_Experience'' then fill (IntV (- 1)) else id) \<circ>
          ((if c = ''Country'' then fill (Str ''Unknown'') else id) \<circ>
           ((if c = ''Performance_Rating'' then fill (Str ''Unknown'') else id) \<circ>
            (if c = ''Name'' then fill (Str ''Unknown'') else id)))) = rule1"
    by (intro ext) (simp add: rule1_def)
  ultimately show "cellwise rule1 df df'" by simp
qed


lemma normalize_text_cellwise:
  assumes "normalize_text U df = Inr df'" and country: "''Country'' \<in> set (columns df)"
  shows "cellwise (rule4 U) df df'"
    and "{''Name'', ''Department''} \<subseteq> set (columns df)"
proof -
  from assms(1) obtain df1 df2 df3 where
    s1: "update_col df ''Name'' (map (norm_name U)) = Inr df1" and
    s2: "update_col df1 ''Department'' (map (norm_dept U)) = Inr df2" and
    s3: "update_col df2 ''Department'' (\<lambda>xs. fillna_series xs (series_map dept_mapping xs)) = Inr df3" and
    s4: "(if ''Country'' \<in> set (columns df3) then update_col df3 ''Country'' (map (norm_name U))
          else Inr df3) = Inr df'"
    by (auto simp: normalize_text_def ebind_Inr)
  note c1 = update_col_cellwise[OF s1] and c2 = update_col_cellwise[OF s2]
  from s2 obtain xs0 where df2: "df2 = AList.update ''Department'' (map (norm_dept U) xs0) df1"
    by (auto simp: update_col_Inr)
  then have dept2: "map_of df2 ''Department'' = Some (map (norm_dept U) xs0)"
    by (simp add: update_conv')
  have "fillna_series (map (norm_dept U) xs0) (series_map dept_mapping (map (norm_dept U) xs0))
          = map canon_dept (map (norm_dept U) xs0)"
    by (rule fillna_series_map) (auto simp: norm_dept_def)
  with s3 dept2 have s3': "update_col df2 ''Department'' (map canon_dept) = Inr df3"
    by (auto simp: update_col_Inr)
  note c3 = update_col_cellwise[OF s3']
  have cols: "columns df1 = columns df" "columns df2 = columns df" "columns df3 = columns df"
    using c1(1) c2(1) c3(1) by (simp_all add: cellwise_def)
  with s4 country have s4': "update_col df3 ''Country'' (map (norm_name U)) = Inr df'" by simp
  note c4 = update_col_cellwise[OF s4']
  show "{''Name'', ''Department''} \<subseteq> set (columns df)"
    using c1(2) c2(2) cols by simp
  have "cellwise (\<lambda>c. (if c = ''Country'' then norm_name U else id) \<circ>
          ((if c = ''Department'' then canon_dept else id) \<circ>
           ((if c = ''Department'' then norm_dept U else id) \<circ>
            (if c = ''Name'' then norm_name U else id)))) df df'"
    by (rule cellwise_trans[OF cellwise_trans[OF cellwise_trans[OF c1(1) c2(1)] c3(1)] c4(1)])
  moreover have "(\<lambda>c. (if c = ''Country'' then norm_name U else id) \<circ>
          ((if c = ''Department'' then canon_dept else id) \<circ>
           ((if c = ''Department'' then norm_dept U else id) \<circ>
            (if c = ''Name'' then norm_name U else id)))) = rule4 U"
    by (intro ext) (simp add: rule4_def)
  ultimately show "cellwise (rule4 U) df df'" by simp
qed

lemma to_datetime1_cases:
  "to_datetime1 P xs c = Null \<or> (\<exists>d. to_datetime1 P xs c = TsV d \<and> valid_ts d)"
  by (simp add: to_datetime1_def split: option.splits)

lemma strftime_filled:
  "(case (if isnull (to_datetime1 P xs c) then TsV (Date 1900 1 1) else to_datetime1 P xs c) of
      TsV d \<Rightarrow> StrV (strftime_ymd d) | _ \<Rightarrow> Null) = iso_or_default P xs c"
  using to_datetime1_cases[of P xs c] by (auto simp: iso_or_default_def isnull_def)

lemma standardize_dates_result:
  assumes "standardize_dates P df = Inr df'"
  shows "\<exists>dates. map_of df ''Date_of_Joining'' = Some dates \<and> datetimelike P dates \<and>
           columns df' = removeAll ''Date_Parsed'' (columns df) \<and>
           (\<forall>c. map_of df' c =
              (if c = ''Date_Parsed'' then None
               else if c = ''Date_of_Joining'' then Some (map (iso_or_default P dates) dates)
               else map_of df c))"
proof -
  from assms obtain dates df1 parsed iso where
    d: "map_of df ''Date_of_Joining'' = Some dates" and
    s1: "update_col (setcol df ''Date_Parsed'' (to_datetime P dates)) ''Date_Parsed''
           (fillna (TsV (Date 1900 1 1))) = Inr df1" and
    s2: "map_of df1 ''Date_Parsed'' = Some parsed" and
    s2': "dt_strftime P dates parsed = Inr iso" and
    s3: "dropcol (setcol df1 ''Date_of_Joining'' iso) ''Date_Parsed'' = Inr df'"
    by (auto simp: standardize_dates_def ebind_Inr getcol_Inr)
  from s2' have dl: "datetimelike P dates"
    and iso: "iso = map (\<lambda>c. case c of TsV d \<Rightarrow> StrV (strftime_ymd d) | _ \<Rightarrow> Null) parsed"
    by (auto simp: dt_strftime_def split: if_splits)
  let ?a = "AList.update ''Date_Parsed'' (to_datetime P dates) df"
  from s1 have df1: "df1 = AList.update ''Date_Parsed'' (fillna (TsV (Date 1900 1 1)) (to_datetime P dates)) ?a"
    by (auto simp: update_col_Inr setcol_def update_conv')
  with s2 have parsed: "parsed = fillna (TsV (Date 1900 1 1)) (to_datetime P dates)"
    by (simp add: update_conv')
  have out: "iso = map (iso_or_default P dates) dates"
    unfolding iso parsed fillna_def to_datetime_def map_map comp_def
    by (simp only: strftime_filled)
  from s3 have df': "df' = AList.delete ''Date_Parsed'' (AList.update ''Date_of_Joining'' iso df1)"
    by (auto simp: dropcol_def setcol_def split: if_splits)
  have doj: "''Date_of_Joining'' \<in> fst ` set df"
    using d by (metis map_of_eq_None_iff option.distinct(1))
  have "columns df' = removeAll ''Date_Parsed'' (columns df)"
    using doj by (simp add: df' df1 columns_def delete_keys update_keys)
  moreover have "\<forall>c. map_of df' c =
              (if c = ''Date_Parsed'' then None
               else if c = ''Date_of_Joining'' then Some (map (iso_or_default P dates) dates)
               else map_of df c)"
    by (simp add: df' df1 delete_conv' update_conv' out)
  ultimately show ?thesis using d dl by blast
qed

lemma deduplicate_result:
  assumes "deduplicate df = Inr df'"
  shows "\<exists>ids. map_of df (id_column df) = Some ids \<and> columns df' = columns df \<and>
           (\<forall>c. map_of df' c = map_option (select (map Not (duplicated ids))) (map_of df c))"
proof -
  from assms obtain ids where ids: "map_of df (id_column df) = Some ids"
    and df': "df' = filter_rows (map Not (duplicated ids)) df"
    by (auto simp: deduplicate_def ebind_Inr getcol_Inr)
  have "columns df' = columns df"
    by (simp add: df' filter_rows_def columns_def comp_def case_prod_unfold)
  moreover have "\<forall>c. map_of df' c = map_option (select (map Not (duplicated ids))) (map_of df c)"
    by (simp add: df' filter_rows_def map_of_map)
  ultimately show ?thesis using ids by blast
qed


lemma select_Nil [simp]: "select [] xs = []" "select ks [] = []"
  by (simp_all add: select_def)

lemma select_Cons [simp]:
  "select (k # ks) (x # xs) = (if k then x # select ks xs else select ks xs)"
  by (simp add: select_def)

lemma map_select: "map f (select ks xs) = select ks (map f xs)"
proof (induction ks arbitrary: xs)
  case Nil
  show ?case by simp
next
  case (Cons k ks)
  then show ?case by (cases xs) simp_all
qed

lemma rule41:
  "c \<noteq> ''Date_of_Joining'' \<Longrightarrow> clean_cell U P dates c = (\<lambda>x. rule4 U c (rule1 c x))"
  by (rule ext) (simp add: rule4_def rule1_def clean_cell_def)

lemma rule1_other:
  "c \<noteq> ''Name'' \<Longrightarrow> c \<noteq> ''Country'' \<Longrightarrow> c \<noteq> ''Performance_Rating'' \<Longrightarrow>
   c \<noteq> ''Years_of_Experience'' \<Longrightarrow> map (rule1 c) xs = xs"
  by (induction xs) (simp_all add: rule1_def)

lemma clean_cell_date: "clean_cell U P dates ''Date_of_Joining'' = iso_or_default P dates"
  by (rule ext) (simp add: clean_cell_def)

lemma clean_data_result:
  assumes "clean_data U P df = Inr out"
  shows "\<exists>dates ids. map_of df ''Date_of_Joining'' = Some dates \<and> datetimelike P dates \<and>
           map_of df (id_column df) = Some ids \<and>
           columns out = removeAll ''Date_Parsed'' (columns df) \<and>
           (\<forall>c. map_of out c =
              (if c = ''Date_Parsed'' then None
               else map_option (\<lambda>xs. select (keep_mask ids) (map (clean_cell U P dates c) xs))
                      (map_of df c)))"
proof -
  from assms obtain df1 df2 df3 where
    s1: "resolve_missing df = Inr df1" and s2: "standardize_dates P df1 = Inr df2" and
    s3: "deduplicate df2 = Inr df3" and s4: "normalize_text U df3 = Inr out"
    by (auto simp: clean_data_def ebind_Inr)
  note r1 = resolve_missing_cellwise[OF s1]
  from r1(1) have cols1: "columns df1 = columns df"
    and m1: "\<And>c. map_of df1 c = map_option (map (rule1 c)) (map_of df c)"
    by (simp_all add: cellwise_def)
  from standardize_dates_result[OF s2] obtain dates1 where
    d1: "map_of df1 ''Date_of_Joining'' = Some dates1" and dl: "datetimelike P dates1" and
    cols2: "columns df2 = removeAll ''Date_Parsed'' (columns df1)" and
    m2: "\<And>c. map_of df2 c =
              (if c = ''Date_Parsed'' then None
               else if c = ''Date_of_Joining'' then Some (map (iso_or_default P dates1) dates1)
               else map_of df1 c)"
    by blast
  from d1 m1[of "''Date_of_Joining''"] have dates: "map_of df ''Date_of_Joining'' = Some dates1"
    by (auto simp: rule1_other)
  from deduplicate_result[OF s3] obtain ids where
    i3: "map_of df2 (id_column df2) = Some ids" and cols3: "columns df3 = columns df2" and
    m3: "\<And>c. map_of df3 c = map_option (select (map Not (duplicated ids))) (map_of df2 c)"
    by blast
  have idc: "id_column df2 = id_column df"
    by (simp add: id_column_def cols2 cols1)
  have idne: "id_column df \<noteq> ''Date_Parsed''" "id_column df \<noteq> ''Date_of_Joining''"
    "id_column df \<noteq> ''Name''" "id_column df \<noteq> ''Country''" "id_column df \<noteq> ''Performance_Rating''"
    "id_column df \<noteq> ''Years_of_Experience''"
    by (simp_all add: id_column_def)
  from i3 have ids: "map_of df (id_column df) = Some ids"
    unfolding idc m2 m1 using idne by (auto simp: rule1_other)
  have country: "''Country'' \<in> set (columns df3)"
    using r1(2) by (simp add: cols3 cols2 cols1)
  note r4 = normalize_text_cellwise[OF s4 country]
  from r4(1) have cols4: "columns out = columns df3"
    and m4: "\<And>c. map_of out c = map_option (map (rule4 U c)) (map_of df3 c)"
    by (simp_all add: cellwise_def)
  have cols: "columns out = removeAll ''Date_Parsed'' (columns df)"
    by (simp add: cols4 cols3 cols2 cols1)
  have "map_of out c =
              (if c = ''Date_Parsed'' then None
               else map_option (\<lambda>xs. select (keep_mask ids) (map (clean_cell U P dates1 c) xs))
                      (map_of df c))" for c
  proof (cases "c = ''Date_of_Joining''")
    case True
    then show ?thesis
      by (simp add: m4 m3 m2 dates map_select keep_mask_def rule4_def clean_cell_date comp_def)
  next
    case False
    then show ?thesis
      by (simp add: m4 m3 m2 m1 map_select keep_mask_def option.map_comp comp_def rule41)
  qed
  with dates dl ids cols show ?thesis by blast
qed

section \<open>Which rows deduplication keeps\<close>

lemma length_duplicated_from [simp]: "length (duplicated_from seen xs) = length xs"
  by (induction xs arbitrary: seen) simp_all

lemma duplicated_from_nth:
  "i < length xs \<Longrightarrow> duplicated_from seen xs ! i \<longleftrightarrow> xs ! i \<in> set seen \<union> set (take i xs)"
proof (induction xs arbitrary: seen i)
  case Nil
  then show ?case by simp
next
  case (Cons x xs)
  show ?case
  proof (cases i)
    case 0
    then show ?thesis by simp
  next
    case (Suc k)
    with Cons.prems have "k < length xs" by simp
    from Cons.IH[OF this, of "x # seen"] Suc show ?thesis by auto
  qed
qed

lemma length_keep_mask [simp]: "length (keep_mask ids) = length ids"
  by (simp add: keep_mask_def duplicated_def)

lemma keep_mask_nth: "i < length ids \<Longrightarrow> keep_mask ids ! i \<longleftrightarrow> ids ! i \<notin> set (take i ids)"
  by (simp add: keep_mask_def duplicated_def duplicated_from_nth)


lemma select_nth:
  "length ks = length xs \<Longrightarrow> i < length xs \<Longrightarrow> ks ! i \<Longrightarrow> select ks xs ! out_pos ks i = xs ! i"
proof (induction ks arbitrary: xs i)
  case Nil
  then show ?case by simp
next
  case (Cons k ks)
  then obtain y ys where xs: "xs = y # ys" and len: "length ks = length ys"
    by (cases xs) simp_all
  show ?case
  proof (cases i)
    case 0
    with Cons.prems show ?thesis by (simp add: xs out_pos_def)
  next
    case (Suc j)
    with Cons.prems xs have j: "j < length ys" "ks ! j" by simp_all
    from Cons.IH[OF len j] show ?thesis by (simp add: xs Suc out_pos_def)
  qed
qed

lemma out_pos_less:
  "i < length ks \<Longrightarrow> ks ! i \<Longrightarrow> out_pos ks i < length (filter (\<lambda>b. b) ks)"
proof (induction ks arbitrary: i)
  case Nil
  then show ?case by simp
next
  case (Cons k ks)
  show ?case
  proof (cases i)
    case 0
    with Cons.prems show ?thesis by (simp add: out_pos_def)
  next
    case (Suc j)
    with Cons.prems have "j < length ks" "ks ! j" by simp_all
    from Cons.IH[OF this] show ?thesis by (simp add: Suc out_pos_def)
  qed
qed

lemma distinct_select_from:
  "distinct (select (map Not (duplicated_from seen xs)) xs) \<and>
   set (select (map Not (duplicated_from seen xs)) xs) = set xs - set seen"
proof (induction xs arbitrary: seen)
  case Nil
  show ?case by simp
next
  case (Cons x xs)
  from Cons.IH[of "x # seen"] show ?case by auto
qed

lemma distinct_kept: "distinct (select (keep_mask ids) ids)"
  using distinct_select_from[of "[]" ids] by (simp add: keep_mask_def duplicated_def)

lemma set_kept: "set (select (keep_mask ids) ids) = set ids"
  using distinct_select_from[of "[]" ids] by (simp add: keep_mask_def duplicated_def)

subsection \<open>When \<^verbatim>\<open>clean_data\<close> returns\<close>

lemma update_col_ok:
  assumes "c \<in> set (columns df)"
  shows "\<exists>df'. update_col df c f = Inr df' \<and> columns df' = columns df"
proof -
  from assms obtain xs where xs: "map_of df c = Some xs" by (auto simp: in_columns)
  then have "update_col df c f = Inr (AList.update c (f xs) df)" by (simp add: update_col_Inr)
  moreover have "columns (AList.update c (f xs) df) = columns df"
    using assms by (simp add: columns_def update_keys)
  ultimately show ?thesis by blast
qed

lemma resolve_missing_ok:
  assumes "{''Name'', ''Performance_Rating'', ''Country'', ''Years_of_Experience''} \<subseteq> set (columns df)"
  shows "\<exists>df'. resolve_missing df = Inr df'"
proof -
  from assms update_col_ok[of "''Name''" df] obtain df1 where
    s1: "update_col df ''Name'' (fillna (Str ''Unknown'')) = Inr df1" and c1: "columns df1 = columns df"
    by auto
  from assms c1 update_col_ok[of "''Performance_Rating''" df1] obtain df2 where
    s2: "update_col df1 ''Performance_Rating'' (fillna (Str ''Unknown'')) = Inr df2"
    and c2: "columns df2 = columns df" by auto
  from assms c2 update_col_ok[of "''Country''" df2] obtain df3 where
    s3: "update_col df2 ''Country'' (fillna (Str ''Unknown'')) = Inr df3"
    and c3: "columns df3 = columns df" by auto
  from assms c3 update_col_ok[of "''Years_of_Experience''" df3] obtain df4 where
    s4: "update_col df3 ''Years_of_Experience'' (fillna (IntV (- 1))) = Inr df4" by auto
  show ?thesis by (simp add: resolve_missing_def ebind_def s1 s2 s3 s4)
qed






text \<open>
  On a date column that pandas does not parse into a datetime column, \<^verbatim>\<open>clean_data\<close> raises
  the \<^verbatim>\<open>AttributeError\<close> of the accessor \<^verbatim>\<open>.dt\<close>.
\<close>

lemma clean_data_raises:
  assumes "{''Name'', ''Performance_Rating'', ''Country'', ''Years_of_Experience''} \<subseteq> set (columns df)"
    and d: "map_of df ''Date_of_Joining'' = Some dates" and dl: "\<not> datetimelike P dates"
  shows "clean_data U P df = Inl AttributeError"
proof -
  from assms(1) resolve_missing_ok[of df] obtain df1 where s1: "resolve_missing df = Inr df1"
    by auto
  have d1: "map_of df1 ''Date_of_Joining'' = Some dates"
    using resolve_missing_cellwise(1)[OF s1] d by (simp add: cellwise_def rule1_other)
  have "standardize_dates P df1 = Inl AttributeError"
    using dl
    by (simp add: standardize_dates_def ebind_def getcol_def d1 update_col_def setcol_def
        update_conv' dt_strftime_def)
  then show ?thesis by (simp add: clean_data_def ebind_def s1)
qed

lemma select_cols_ok:
  "set cs \<subseteq> set (columns df) \<Longrightarrow> \<exists>proj. select_cols df cs = Inr proj \<and> columns proj = cs"
proof (induction cs)
  case Nil
  show ?case by (simp add: columns_def)
next
  case (Cons c cs)
  then obtain proj where p: "select_cols df cs = Inr proj" "columns proj = cs" by auto
  from Cons.prems obtain xs where "map_of df c = Some xs" by (auto simp: in_columns)
  then show ?case by (simp add: ebind_def getcol_def p columns_def[of "_ # _"] p(2)[unfolded columns_def])
qed

subsection \<open>Columns and rows of the result\<close>

lemma wf_df_length: "wf_df df \<Longrightarrow> map_of df c = Some xs \<Longrightarrow> length xs = nrows df"
  by (auto simp: wf_df_def list_all_iff dest!: map_of_SomeD)

lemma clean_cell_id: "map (clean_cell U P dates (id_column df)) xs = xs"
  by (induction xs) (simp_all add: clean_cell_def id_column_def)

lemma clean_data_column:
  assumes "clean_data U P df = Inr out"
  shows "\<exists>dates ids. getcol df ''Date_of_Joining'' = Inr dates \<and>
           getcol df (id_column df) = Inr ids \<and>
           getcol out (id_column df) = Inr (select (keep_mask ids) ids) \<and>
           (\<forall>c xs. c \<noteq> ''Date_Parsed'' \<and> getcol df c = Inr xs \<longrightarrow>
              getcol out c = Inr (select (keep_mask ids) (map (clean_cell U P dates c) xs)))"
proof -
  from clean_data_result[OF assms] obtain dates ids where
    d: "map_of df ''Date_of_Joining'' = Some dates" and
    i: "map_of df (id_column df) = Some ids" and
    m: "\<And>c. map_of out c =
              (if c = ''Date_Parsed'' then None
               else map_option (\<lambda>xs. select (keep_mask ids) (map (clean_cell U P dates c) xs))
                      (map_of df c))"
    by blast
  have idne: "id_column df \<noteq> ''Date_Parsed''" by (simp add: id_column_def)
  have "getcol out (id_column df) = Inr (select (keep_mask ids) ids)"
    using idne by (simp add: getcol_def m i clean_cell_id)
  moreover have "\<forall>c xs. c \<noteq> ''Date_Parsed'' \<and> getcol df c = Inr xs \<longrightarrow>
              getcol out c = Inr (select (keep_mask ids) (map (clean_cell U P dates c) xs))"
    by (auto simp: getcol_Inr m)
  ultimately show ?thesis using d i by (auto simp: getcol_Inr)
qed

lemma kept_row:
  assumes "length xs = length ids" and "i < length ids" and "keep_mask ids ! i"
  shows "select (keep_mask ids) (map f xs) ! out_pos (keep_mask ids) i = f (xs ! i)"
  using select_nth[of "keep_mask ids" "map f xs" i] assms by simp

lemma clean_data_row:
  assumes "clean_data U P df = Inr out" and "wf_df df"
    and "getcol df (id_column df) = Inr ids" and "getcol df ''Date_of_Joining'' = Inr dates"
    and "getcol df c = Inr xs" and "c \<noteq> ''Date_Parsed''"
    and "i < length ids" and "keep_mask ids ! i"
  shows "\<exists>ys. getcol out c = Inr ys \<and> ys ! out_pos (keep_mask ids) i = clean_cell U P dates c (xs ! i)"
proof -
  from clean_data_column[OF assms(1)] assms(3,4,5,6) have
    "getcol out c = Inr (select (keep_mask ids) (map (clean_cell U P dates c) xs))" by auto
  moreover have "length xs = length ids"
    using assms(2,3,5) by (simp add: getcol_Inr wf_df_length)
  ultimately show ?thesis using kept_row[OF _ assms(7,8)] by simp
qed

lemma count_list_distinct: "distinct xs \<Longrightarrow> x \<in> set xs \<Longrightarrow> count_list xs x = 1"
  by (induction xs) auto

lemma count_list_kept:
  "x \<in> set ids \<Longrightarrow> count_list (select (keep_mask ids) ids) x = 1"
  using distinct_kept[of ids] set_kept[of ids] by (simp add: count_list_distinct)

lemma take_all_conv: "x \<notin> set (take i xs) \<longleftrightarrow> (\<forall>k<i. k < length xs \<longrightarrow> xs ! k \<noteq> x)"
  by (auto simp: in_set_conv_nth)

lemma clean_cell_dept:
  "clean_cell U P dates ''Department'' (StrV s) =
     (case dept_mapping (str_upper U (remove_ws s)) of
        Some v \<Rightarrow> StrV v | None \<Rightarrow> StrV (str_upper U (remove_ws s)))"
  by (simp add: clean_cell_def norm_dept_def canon_dept_def astype_str_def)

subsection \<open>Dates in ISO form\<close>

lemma is_digit_digit: "is_digit (digit n)"
proof -
  have "0 \<le> n mod 10" "n mod 10 < 10" by simp_all
  then show ?thesis by (simp add: is_digit_def digit_def)
qed

lemma matches_strftime: "matches_ymd (strftime_ymd d)"
  by (simp add: strftime_ymd_def is_digit_digit)

lemma strftime_default: "StrV (strftime_ymd (Date 1900 1 1)) = Str ''1900-01-01''"
  by code_simp

lemma iso_or_default_cases:
  "iso_or_default P dates x =
     (case to_datetime1 P dates x of TsV d \<Rightarrow> StrV (strftime_ymd d) | _ \<Rightarrow> Str ''1900-01-01'')"
  by (simp add: iso_or_default_def strftime_default split: cell.splits)

lemma iso_or_default_matches: "\<exists>s. iso_or_default P dates x = StrV s \<and> matches_ymd s"
  using matches_strftime
  by (auto simp: iso_or_default_def split: cell.splits)

lemma set_select_subset: "set (select ks xs) \<subseteq> set xs"
  by (auto simp: select_def dest: set_zip_rightD)

subsection \<open>The working column of \<^verbatim>\<open>profile_data\<close>\<close>

lemma delete_working_column:
  assumes "c \<notin> set (columns df)"
  shows "AList.delete c (AList.update c v df) = df"
  using assms by (simp add: delete_update_same columns_def)

lemma columns_filter_rows: "columns (filter_rows ks df) = columns df"
  by (simp add: filter_rows_def columns_def comp_def case_prod_unfold)

subsection \<open>ASCII text under the text rules\<close>

lemma ascii_dbD:
  assumes "ascii_db U" and "is_ascii c"
  shows "upper_full U c = [ascii_to_upper c]" and "lower_full U c = [ascii_to_lower c]"
    and "title_full U c = [ascii_to_upper c]" and "cased U c = (ascii_lower c \<or> ascii_upper c)"
  using assms by (simp_all add: ascii_db_def)

lemma ascii_db_example: "ascii_db example_ucd"
  by (simp add: ascii_db_def example_ucd_def is_ascii_def)

lemma is_ascii_to_upper: "is_ascii c \<Longrightarrow> is_ascii (ascii_to_upper c)"
  by (simp add: is_ascii_def ascii_to_upper_def ascii_lower_def)

lemma is_ascii_to_lower: "is_ascii c \<Longrightarrow> is_ascii (ascii_to_lower c)"
  by (simp add: is_ascii_def ascii_to_lower_def ascii_upper_def)










lemma not_sigma: "is_ascii c \<Longrightarrow> c \<noteq> 931"
  by (auto simp: is_ascii_def)

lemma title_from_ascii:
  assumes "ascii_db U"
  shows "list_all is_ascii s \<Longrightarrow> title_from U b pre s = ascii_title_from b s"
proof (induction s arbitrary: b pre)
  case Nil
  show ?case by simp
next
  case (Cons c s)
  then have c: "is_ascii c" and s: "list_all is_ascii s" by simp_all
  note db = ascii_dbD[OF assms c]
  show ?case
    by (simp add: lower_ucs4_def not_sigma[OF c] db Cons.IH[OF s])
qed


lemma ascii_title: "list_all is_ascii s \<Longrightarrow> list_all is_ascii (ascii_title_from b s)"
  by (induction s arbitrary: b) (simp_all add: is_ascii_to_upper is_ascii_to_lower)


lemma ascii_strip: "list_all is_ascii s \<Longrightarrow> list_all is_ascii (str_strip s)"
  by (auto simp: str_strip_def list_all_iff dest!: set_dropWhileD)












lemma is_ascii_digit: "is_ascii (digit n)"
proof -
  have "0 \<le> n mod 10" "n mod 10 < 10" by simp_all
  then show ?thesis by (simp add: is_ascii_def digit_def)
qed

lemma ascii_str_of_nat: "list_all is_ascii (str_of_nat n)"
proof (induction n rule: str_of_nat.induct)
  case (1 n)
  show ?case
  proof (cases "n < 10")
    case True
    then have "str_of_nat n = [digit (int n)]" by (subst str_of_nat.simps) simp
    then show ?thesis by (simp add: is_ascii_digit)
  next
    case False
    then have "str_of_nat n = str_of_nat (n div 10) @ [digit (int n)]"
      by (subst str_of_nat.simps) simp
    with 1[OF False] show ?thesis by (simp add: is_ascii_digit)
  qed
qed

lemma ascii_literals:
  "list_all is_ascii (text_of ''None'')" "list_all is_ascii (text_of '' 00:00:00'')"
  "list_all is_ascii (text_of ''Unknown'')"
  by code_simp+

lemma ascii_strftime: "list_all is_ascii (strftime_ymd d)"
  by (simp add: strftime_ymd_def is_ascii_digit) (simp add: is_ascii_def)

lemma ascii_astype_str: "ascii_cell x \<Longrightarrow> list_all is_ascii (astype_str x)"
  by (cases x)
     (simp_all add: astype_str_def ascii_cell_def ascii_literals ascii_strftime str_of_int_def
        ascii_str_of_nat is_ascii_def)

lemma norm_name_ascii:
  assumes "ascii_db U" and "ascii_cell x"
  shows "norm_name U x = StrV (ascii_title_from False (str_strip (astype_str x)))"
    and "ascii_cell (norm_name U x)"
proof -
  have a: "list_all is_ascii (str_strip (astype_str x))"
    by (rule ascii_strip[OF ascii_astype_str[OF assms(2)]])
  show n: "norm_name U x = StrV (ascii_title_from False (str_strip (astype_str x)))"
    by (simp add: norm_name_def str_title_def title_from_ascii[OF assms(1) a])
  show "ascii_cell (norm_name U x)"
    unfolding n by (simp add: ascii_cell_def ascii_title[OF a])
qed


lemma norm_name_Unknown:
  assumes "ascii_db U"
  shows "norm_name U (Str ''Unknown'') = Str ''Unknown''"
proof -
  have "ascii_cell (Str ''Unknown'')" by (simp add: Str_def ascii_cell_def ascii_literals)
  from norm_name_ascii(1)[OF assms this]
  have "norm_name U (Str ''Unknown'') = StrV (ascii_title_from False (str_strip (astype_str (Str ''Unknown''))))" .
  also have "\<dots> = Str ''Unknown''" by code_simp
  finally show ?thesis .
qed

lemma clean_cell_Null:
  "ascii_db U \<Longrightarrow> clean_cell U P dates ''Name'' Null = Str ''Unknown''"
  "ascii_db U \<Longrightarrow> clean_cell U P dates ''Country'' Null = Str ''Unknown''"
  "clean_cell U P dates ''Performance_Rating'' Null = Str ''Unknown''"
  "clean_cell U P dates ''Years_of_Experience'' Null = IntV (- 1)"
  by (simp_all add: clean_cell_def fill_def isnull_def norm_name_Unknown)





subsection \<open>Reading ISO dates back, and tables without duplicates\<close>
















subsection \<open>Cells that the rules leave alone\<close>







section \<open>The claims\<close>

lemma clean_raw_example: "clean_data example_ucd iso_parser raw_example = Inr cleaned_example"
  by code_simp

text \<open>
  C8, as the specification has it: a row whose Department is null keeps a null
  Department through \<^verbatim>\<open>clean_data\<close>. The program does not do this. Step 4 applies
  \<^verbatim>\<open>astype(str)\<close> to the Department column before any test for missing values, so the
  missing value becomes the text \<^verbatim>\<open>None\<close>, and after upper-casing the row carries the
  department \<^verbatim>\<open>NONE\<close>. The theorem runs \<^verbatim>\<open>clean_data\<close> on a one-row staging table with a
  null Department.
\<close>

theorem null_department_becomes_text:
  "clean_data example_ucd iso_parser null_department_example =
     Inr [(''id'', [IntV 1]),
          (''Employee_ID'', [IntV 7]),
          (''Name'', [Str ''Ann Lee'']),
          (''Age'', [IntV 33]),
          (''Department'', [Str ''NONE'']),
          (''Date_of_Joining'', [Str ''2020-05-06'']),
          (''Years_of_Experience'', [IntV 4]),
          (''Country'', [Str ''Canada'']),
          (''Salary'', [IntV 60000]),
          (''Performance_Rating'', [Str ''Good''])]"
  by code_simp

text \<open>
  C7, amended. The specification asks that the table \<^verbatim>\<open>clean_data\<close> returns has exactly
  the nine columns of the canonical record. The program keeps the columns of its input:
  for a table read from the staging store (\<^verbatim>\<open>SELECT *\<close>, so the surrogate \<^verbatim>\<open>id\<close> first and
  then the nine columns), the table that \<^verbatim>\<open>clean_data\<close> returns, when it returns one, has the
  same ten columns in the same order: \<^verbatim>\<open>id\<close>, then the nine columns of the canonical
  record.
\<close>

theorem clean_data_keeps_input_columns:
  assumes "columns df = staging_columns" and "clean_data U P df = Inr out"
  shows "columns out = staging_columns \<and> columns out = ''id'' # canonical_columns"
proof -
  from clean_data_result[OF assms(2)] have "columns out = removeAll ''Date_Parsed'' (columns df)"
    by (elim exE conjE)
  then show ?thesis
    by (simp add: assms(1) staging_columns_def canonical_columns_def)
qed

text \<open>The amended C7 at the example table, read with the ISO parser.\<close>

theorem clean_data_keeps_input_columns_witness:
  "columns raw_example = staging_columns \<and>
   clean_data example_ucd iso_parser raw_example = Inr cleaned_example \<and>
   columns cleaned_example = staging_columns \<and>
   columns cleaned_example = ''id'' # canonical_columns"
proof -
  have h: "columns raw_example = staging_columns" by code_simp
  from clean_data_keeps_input_columns[OF h clean_raw_example] h clean_raw_example
  show ?thesis by (intro conjI) (elim conjE, assumption)+
qed

text \<open>
  C7 as stated fails: the example table has the columns of the staging store, and the
  table \<^verbatim>\<open>clean_data\<close> returns for it still starts with the column \<^verbatim>\<open>id\<close>, so its columns are
  not those of the canonical record.
\<close>

theorem staging_table_keeps_id:
  "columns raw_example = staging_columns \<and>
   clean_data example_ucd iso_parser raw_example = Inr cleaned_example \<and>
   columns cleaned_example = staging_columns \<and>
   columns cleaned_example \<noteq> canonical_columns"
proof -
  have "columns raw_example = staging_columns" by code_simp
  moreover have "columns cleaned_example = staging_columns" by code_simp
  moreover have "columns cleaned_example \<noteq> canonical_columns" by code_simp
  ultimately show ?thesis using clean_raw_example by simp
qed

text \<open>
  C2. Whenever \<^verbatim>\<open>clean_data\<close> returns a table, its identifier column is the input's
  identifier column restricted to the kept rows; no value occurs twice in it and every
  identifier value of the input occurs in it. A row is kept exactly when its identifier
  value occurs in no earlier row, whatever its Name or any other column holds: the first
  occurrence in the original order, grouped by the identifier alone. Every column of the
  result is the column of the input, cleaned cell by cell and restricted to those same
  kept rows, so the row retained for an identifier is the whole first row that carries it.
\<close>

theorem clean_data_keeps_first_occurrence:
  assumes "clean_data U P df = Inr out"
  shows "\<exists>ids ids' dates. getcol df (id_column df) = Inr ids \<and>
           getcol df ''Date_of_Joining'' = Inr dates \<and>
           getcol out (id_column df) = Inr ids' \<and>
           distinct ids' \<and> set ids' = set ids \<and> ids' = select (keep_mask ids) ids \<and>
           (\<forall>i<length ids. keep_mask ids ! i \<longleftrightarrow> ids ! i \<notin> set (take i ids)) \<and>
           (\<forall>c xs. c \<noteq> ''Date_Parsed'' \<and> getcol df c = Inr xs \<longrightarrow>
              getcol out c = Inr (select (keep_mask ids) (map (clean_cell U P dates c) xs)))"
proof -
  from clean_data_column[OF assms] obtain dates ids where
    "getcol df ''Date_of_Joining'' = Inr dates" and
    "getcol df (id_column df) = Inr ids" and
    "getcol out (id_column df) = Inr (select (keep_mask ids) ids)" and
    "\<forall>c xs. c \<noteq> ''Date_Parsed'' \<and> getcol df c = Inr xs \<longrightarrow>
              getcol out c = Inr (select (keep_mask ids) (map (clean_cell U P dates c) xs))"
    by blast
  moreover have "\<forall>i<length ids. keep_mask ids ! i \<longleftrightarrow> ids ! i \<notin> set (take i ids)"
    by (simp add: keep_mask_nth)
  ultimately show ?thesis using distinct_kept[of ids] set_kept[of ids] by blast
qed

text \<open>C2 at the example table: the rows 1, 3 and 4 of the five are kept.\<close>

theorem clean_data_keeps_first_occurrence_witness:
  "clean_data example_ucd iso_parser raw_example = Inr cleaned_example \<and>
   (\<exists>ids ids' dates. getcol raw_example (id_column raw_example) = Inr ids \<and>
           getcol raw_example ''Date_of_Joining'' = Inr dates \<and>
           getcol cleaned_example (id_column raw_example) = Inr ids' \<and>
           distinct ids' \<and> set ids' = set ids \<and> ids' = select (keep_mask ids) ids \<and>
           (\<forall>i<length ids. keep_mask ids ! i \<longleftrightarrow> ids ! i \<notin> set (take i ids)) \<and>
           (\<forall>c xs. c \<noteq> ''Date_Parsed'' \<and> getcol raw_example c = Inr xs \<longrightarrow>
              getcol cleaned_example c =
                Inr (select (keep_mask ids) (map (clean_cell example_ucd iso_parser dates c) xs))))"
  by (rule conjI[OF clean_raw_example clean_data_keeps_first_occurrence[OF clean_raw_example]])

text \<open>
  C10. When two or more rows of the input have no identifier, the identifier column of
  the result holds the missing value exactly once, and a row without identifier is kept
  exactly when no earlier row is without identifier: the first of them is kept and every
  other one is dropped as its duplicate.
\<close>

theorem missing_identifiers_collapse:
  assumes "clean_data U P df = Inr out" and "getcol df (id_column df) = Inr ids"
    and "2 \<le> count_list ids Null"
  shows "\<exists>ids'. getcol out (id_column df) = Inr ids' \<and> ids' = select (keep_mask ids) ids \<and>
           count_list ids' Null = 1 \<and>
           (\<forall>i<length ids. ids ! i = Null \<longrightarrow>
              (keep_mask ids ! i \<longleftrightarrow> (\<forall>k<i. ids ! k \<noteq> Null)))"
proof -
  from clean_data_column[OF assms(1)] assms(2) have
    out: "getcol out (id_column df) = Inr (select (keep_mask ids) ids)" by auto
  from assms(3) have "count_list ids Null \<noteq> 0" by simp
  then have "Null \<in> set ids" by (simp add: count_list_0_iff)
  then have one: "count_list (select (keep_mask ids) ids) Null = 1" by (rule count_list_kept)
  have "\<forall>i<length ids. ids ! i = Null \<longrightarrow>
              (keep_mask ids ! i \<longleftrightarrow> (\<forall>k<i. ids ! k \<noteq> Null))"
    by (auto simp: keep_mask_nth take_all_conv)
  with out one show ?thesis by blast
qed

text \<open>C10 at the example table, whose last two rows have no identifier.\<close>

theorem missing_identifiers_collapse_witness:
  "clean_data example_ucd iso_parser raw_example = Inr cleaned_example \<and>
   getcol raw_example (id_column raw_example) = Inr [IntV 1, IntV 1, IntV 2, Null, Null] \<and>
   2 \<le> count_list [IntV 1, IntV 1, IntV 2, Null, Null] Null \<and>
   (\<exists>ids'. getcol cleaned_example (id_column raw_example) = Inr ids' \<and>
      ids' = select (keep_mask [IntV 1, IntV 1, IntV 2, Null, Null]) [IntV 1, IntV 1, IntV 2, Null, Null] \<and>
      count_list ids' Null = 1 \<and>
      (\<forall>i<length [IntV 1, IntV 1, IntV 2, Null, Null].
          [IntV 1, IntV 1, IntV 2, Null, Null] ! i = Null \<longrightarrow>
          (keep_mask [IntV 1, IntV 1, IntV 2, Null, Null] ! i \<longleftrightarrow>
           (\<forall>k<i. [IntV 1, IntV 1, IntV 2, Null, Null] ! k \<noteq> Null))))"
proof -
  have h2: "getcol raw_example (id_column raw_example) = Inr [IntV 1, IntV 1, IntV 2, Null, Null]"
    by code_simp
  have h3: "2 \<le> count_list [IntV 1, IntV 1, IntV 2, Null, Null] Null" by simp
  from missing_identifiers_collapse[OF clean_raw_example h2 h3] clean_raw_example h2 h3
  show ?thesis by (intro conjI)
qed

text \<open>
  C5. Take a row of the input that deduplication keeps and in which Name,
  Performance_Rating, Country and Years_of_Experience are all missing. The row of the
  result that comes from it (its position is the number of kept rows before it) has the
  Name, Performance_Rating and Country \<^verbatim>\<open>Unknown\<close> and the Years_of_Experience -1. The
  character table is one with the ASCII entries, as every Unicode character database is:
  that is what makes \<^verbatim>\<open>Unknown\<close>, stripped and put in title case, \<^verbatim>\<open>Unknown\<close> again.
\<close>

theorem missing_values_get_defaults:
  assumes "ascii_db U" and "clean_data U P df = Inr out" and "wf_df df"
    and "getcol df (id_column df) = Inr ids"
    and "getcol df ''Name'' = Inr ns" and "getcol df ''Performance_Rating'' = Inr ps"
    and "getcol df ''Country'' = Inr cs" and "getcol df ''Years_of_Experience'' = Inr ys"
    and "i < length ids" and "keep_mask ids ! i"
    and "ns ! i = Null" and "ps ! i = Null" and "cs ! i = Null" and "ys ! i = Null"
  shows "\<exists>ns' ps' cs' ys'.
           getcol out ''Name'' = Inr ns' \<and> getcol out ''Performance_Rating'' = Inr ps' \<and>
           getcol out ''Country'' = Inr cs' \<and> getcol out ''Years_of_Experience'' = Inr ys' \<and>
           ns' ! out_pos (keep_mask ids) i = Str ''Unknown'' \<and>
           ps' ! out_pos (keep_mask ids) i = Str ''Unknown'' \<and>
           cs' ! out_pos (keep_mask ids) i = Str ''Unknown'' \<and>
           ys' ! out_pos (keep_mask ids) i = IntV (- 1)"
proof -
  note null = clean_cell_Null(1,2)[OF assms(1)] clean_cell_Null(3,4)
  from clean_data_column[OF assms(2)] obtain dates where
    d: "getcol df ''Date_of_Joining'' = Inr dates" by blast
  note row = clean_data_row[OF assms(2,3,4) d _ _ assms(9,10)]
  from row[OF assms(5)] assms(11) obtain ns' where
    "getcol out ''Name'' = Inr ns'" "ns' ! out_pos (keep_mask ids) i = Str ''Unknown''"
    by (auto simp: null)
  moreover from row[OF assms(6)] assms(12) obtain ps' where
    "getcol out ''Performance_Rating'' = Inr ps'" "ps' ! out_pos (keep_mask ids) i = Str ''Unknown''"
    by (auto simp: null)
  moreover from row[OF assms(7)] assms(13) obtain cs' where
    "getcol out ''Country'' = Inr cs'" "cs' ! out_pos (keep_mask ids) i = Str ''Unknown''"
    by (auto simp: null)
  moreover from row[OF assms(8)] assms(14) obtain ys' where
    "getcol out ''Years_of_Experience'' = Inr ys'" "ys' ! out_pos (keep_mask ids) i = IntV (- 1)"
    by (auto simp: null)
  ultimately show ?thesis by blast
qed

text \<open>C5 at the fourth row of the example table, which becomes the third row of the result.\<close>

theorem missing_values_get_defaults_witness:
  "ascii_db example_ucd \<and>
   clean_data example_ucd iso_parser raw_example = Inr cleaned_example \<and> wf_df raw_example \<and>
   getcol raw_example (id_column raw_example) = Inr [IntV 1, IntV 1, IntV 2, Null, Null] \<and>
   getcol raw_example ''Name'' = Inr [Str ''john doe'', Str ''John Doe'', Str ''  jane '', Null, Str ''bob''] \<and>
   getcol raw_example ''Performance_Rating'' = Inr [Str ''Good'', Str ''Good'', Null, Null, Str ''Poor''] \<and>
   getcol raw_example ''Country'' = Inr [Str ''usa'', Str ''USA'', Null, Null, Str ''uk''] \<and>
   getcol raw_example ''Years_of_Experience'' = Inr [IntV 5, IntV 5, Null, Null, IntV 3] \<and>
   3 < length [IntV 1, IntV 1, IntV 2, Null, Null] \<and> keep_mask [IntV 1, IntV 1, IntV 2, Null, Null] ! 3 \<and>
   [Str ''john doe'', Str ''John Doe'', Str ''  jane '', Null, Str ''bob''] ! 3 = Null \<and> [Str ''Good'', Str ''Good'', Null, Null, Str ''Poor''] ! 3 = Null \<and> [Str ''usa'', Str ''USA'', Null, Null, Str ''uk''] ! 3 = Null \<and> [IntV 5, IntV 5, Null, Null, IntV 3] ! 3 = Null \<and>
   (\<exists>ns' ps' cs' ys'.
      getcol cleaned_example ''Name'' = Inr ns' \<and>
      getcol cleaned_example ''Performance_Rating'' = Inr ps' \<and>
      getcol cleaned_example ''Country'' = Inr cs' \<and>
      getcol cleaned_example ''Years_of_Experience'' = Inr ys' \<and>
      ns' ! out_pos (keep_mask [IntV 1, IntV 1, IntV 2, Null, Null]) 3 = Str ''Unknown'' \<and>
      ps' ! out_pos (keep_mask [IntV 1, IntV 1, IntV 2, Null, Null]) 3 = Str ''Unknown'' \<and>
      cs' ! out_pos (keep_mask [IntV 1, IntV 1, IntV 2, Null, Null]) 3 = Str ''Unknown'' \<and>
      ys' ! out_pos (keep_mask [IntV 1, IntV 1, IntV 2, Null, Null]) 3 = IntV (- 1))"
proof -
  have db: "ascii_db example_ucd" by (rule ascii_db_example)
  have wf: "wf_df raw_example" by code_simp
  have h3: "getcol raw_example (id_column raw_example) = Inr [IntV 1, IntV 1, IntV 2, Null, Null]" by code_simp
  have h4: "getcol raw_example ''Name'' = Inr [Str ''john doe'', Str ''John Doe'', Str ''  jane '', Null, Str ''bob'']" by code_simp
  have h5: "getcol raw_example ''Performance_Rating'' = Inr [Str ''Good'', Str ''Good'', Null, Null, Str ''Poor'']" by code_simp
  have h6: "getcol raw_example ''Country'' = Inr [Str ''usa'', Str ''USA'', Null, Null, Str ''uk'']" by code_simp
  have h7: "getcol raw_example ''Years_of_Experience'' = Inr [IntV 5, IntV 5, Null, Null, IntV 3]" by code_simp
  have h8: "3 < length [IntV 1, IntV 1, IntV 2, Null, Null]" by simp
  have h9: "keep_mask [IntV 1, IntV 1, IntV 2, Null, Null] ! 3" by code_simp
  have h10: "[Str ''john doe'', Str ''John Doe'', Str ''  jane '', Null, Str ''bob''] ! 3 = Null" by simp
  have h11: "[Str ''Good'', Str ''Good'', Null, Null, Str ''Poor''] ! 3 = Null" by simp
  have h12: "[Str ''usa'', Str ''USA'', Null, Null, Str ''uk''] ! 3 = Null" by simp
  have h13: "[IntV 5, IntV 5, Null, Null, IntV 3] ! 3 = Null" by simp
  from missing_values_get_defaults[OF db clean_raw_example wf h3 h4 h5 h6 h7 h8 h9 h10 h11 h12 h13]
    db clean_raw_example wf h3 h4 h5 h6 h7 h8 h9 h10 h11 h12 h13
  show ?thesis by (intro conjI)
qed

text \<open>
  C4. Take a row of the input that deduplication keeps and whose Department is a string.
  Drop every whitespace character of the string and replace every other character by its
  upper case. If the outcome is a key of \<^verbatim>\<open>dept_mapping\<close>, the Department of the row in the
  result is the label the key is mapped to; if it is no key, the Department in the result
  is that outcome itself. This holds for every string and every character table.
\<close>

theorem department_is_canonicalised:
  assumes "clean_data U P df = Inr out" and "wf_df df"
    and "getcol df (id_column df) = Inr ids" and "getcol df ''Department'' = Inr ds"
    and "i < length ids" and "keep_mask ids ! i" and "ds ! i = StrV s"
  shows "\<exists>ds'. getcol out ''Department'' = Inr ds' \<and>
           ds' ! out_pos (keep_mask ids) i =
             (case dept_mapping (concat (map (upper_full U) (filter (\<lambda>c. \<not> is_space c) s))) of
                Some v \<Rightarrow> StrV v
              | None \<Rightarrow> StrV (concat (map (upper_full U) (filter (\<lambda>c. \<not> is_space c) s))))"
proof -
  from clean_data_column[OF assms(1)] obtain dates where
    d: "getcol df ''Date_of_Joining'' = Inr dates" by blast
  from clean_data_row[OF assms(1,2,3) d assms(4) _ assms(5,6)] assms(7)
  show ?thesis by (simp add: clean_cell_dept[unfolded str_upper_def remove_ws_def])
qed

text \<open>
  C4 at the three rows of the table of departments: \<^verbatim>\<open>cust  Support\<close> between blanks
  becomes \<^verbatim>\<open>CUSTOMER SUPPORT\<close>, the label of the key \<^verbatim>\<open>CUSTSUPPORT\<close>; \<^verbatim>\<open>h\<close>, no-break space,
  \<^verbatim>\<open>r\<close> becomes \<^verbatim>\<open>HR\<close>; \<^verbatim>\<open>Quality Assurance\<close> is no key and becomes \<^verbatim>\<open>QUALITYASSURANCE\<close>.
\<close>

theorem department_is_canonicalised_witness:
  "clean_data example_ucd iso_parser department_example = Inr department_cleaned \<and>
   wf_df department_example \<and>
   getcol department_example (id_column department_example) = Inr [IntV 11, IntV 12, IntV 13] \<and>
   getcol department_example ''Department'' = Inr [Str '' cust  Support '', StrV [104, 160, 114], Str ''Quality Assurance''] \<and>
   0 < length [IntV 11, IntV 12, IntV 13] \<and> keep_mask [IntV 11, IntV 12, IntV 13] ! 0 \<and>
   [Str '' cust  Support '', StrV [104, 160, 114], Str ''Quality Assurance''] ! 0 = StrV (text_of '' cust  Support '') \<and>
   1 < length [IntV 11, IntV 12, IntV 13] \<and> keep_mask [IntV 11, IntV 12, IntV 13] ! 1 \<and>
   [Str '' cust  Support '', StrV [104, 160, 114], Str ''Quality Assurance''] ! 1 = StrV ([104, 160, 114]) \<and>
   2 < length [IntV 11, IntV 12, IntV 13] \<and> keep_mask [IntV 11, IntV 12, IntV 13] ! 2 \<and>
   [Str '' cust  Support '', StrV [104, 160, 114], Str ''Quality Assurance''] ! 2 = StrV (text_of ''Quality Assurance'') \<and>
   (\<exists>ds'. getcol department_cleaned ''Department'' = Inr ds' \<and>
      ds' ! out_pos (keep_mask [IntV 11, IntV 12, IntV 13]) 0 = Str ''CUSTOMER SUPPORT'') \<and>
   (\<exists>ds'. getcol department_cleaned ''Department'' = Inr ds' \<and>
      ds' ! out_pos (keep_mask [IntV 11, IntV 12, IntV 13]) 1 = Str ''HR'') \<and>
   (\<exists>ds'. getcol department_cleaned ''Department'' = Inr ds' \<and>
      ds' ! out_pos (keep_mask [IntV 11, IntV 12, IntV 13]) 2 = Str ''QUALITYASSURANCE'')"
proof -
  have run: "clean_data example_ucd iso_parser department_example = Inr department_cleaned"
    by code_simp
  have wf: "wf_df department_example" by code_simp
  have h3: "getcol department_example (id_column department_example) = Inr [IntV 11, IntV 12, IntV 13]" by code_simp
  have h4: "getcol department_example ''Department'' = Inr [Str '' cust  Support '', StrV [104, 160, 114], Str ''Quality Assurance'']" by code_simp
  have a0: "0 < length [IntV 11, IntV 12, IntV 13]" by simp
  have b0: "keep_mask [IntV 11, IntV 12, IntV 13] ! 0" by code_simp
  have c0: "[Str '' cust  Support '', StrV [104, 160, 114], Str ''Quality Assurance''] ! 0 = StrV (text_of '' cust  Support '')" by (simp add: Str_def)
  have e0: "(case dept_mapping (concat (map (upper_full example_ucd) (filter (\<lambda>c. \<not> is_space c) (text_of '' cust  Support '')))) of
           Some v \<Rightarrow> StrV v | None \<Rightarrow> StrV (concat (map (upper_full example_ucd) (filter (\<lambda>c. \<not> is_space c) (text_of '' cust  Support ''))))) = Str ''CUSTOMER SUPPORT''"
    by code_simp
  from department_is_canonicalised[OF run wf h3 h4 a0 b0 c0]
  have r0: "\<exists>ds'. getcol department_cleaned ''Department'' = Inr ds' \<and>
      ds' ! out_pos (keep_mask [IntV 11, IntV 12, IntV 13]) 0 = Str ''CUSTOMER SUPPORT''"
    by (simp only: e0)
  have a1: "1 < length [IntV 11, IntV 12, IntV 13]" by simp
  have b1: "keep_mask [IntV 11, IntV 12, IntV 13] ! 1" by code_simp
  have c1: "[Str '' cust  Support '', StrV [104, 160, 114], Str ''Quality Assurance''] ! 1 = StrV ([104, 160, 114])" by (simp add: Str_def)
  have e1: "(case dept_mapping (concat (map (upper_full example_ucd) (filter (\<lambda>c. \<not> is_space c) ([104, 160, 114])))) of
           Some v \<Rightarrow> StrV v | None \<Rightarrow> StrV (concat (map (upper_full example_ucd) (filter (\<lambda>c. \<not> is_space c) ([104, 160, 114]))))) = Str ''HR''"
    by code_simp
  from department_is_canonicalised[OF run wf h3 h4 a1 b1 c1]
  have r1: "\<exists>ds'. getcol department_cleaned ''Department'' = Inr ds' \<and>
      ds' ! out_pos (keep_mask [IntV 11, IntV 12, IntV 13]) 1 = Str ''HR''"
    by (simp only: e1)
  have a2: "2 < length [IntV 11, IntV 12, IntV 13]" by simp
  have b2: "keep_mask [IntV 11, IntV 12, IntV 13] ! 2" by code_simp
  have c2: "[Str '' cust  Support '', StrV [104, 160, 114], Str ''Quality Assurance''] ! 2 = StrV (text_of ''Quality Assurance'')" by (simp add: Str_def)
  have e2: "(case dept_mapping (concat (map (upper_full example_ucd) (filter (\<lambda>c. \<not> is_space c) (text_of ''Quality Assurance'')))) of
           Some v \<Rightarrow> StrV v | None \<Rightarrow> StrV (concat (map (upper_full example_ucd) (filter (\<lambda>c. \<not> is_space c) (text_of ''Quality Assurance''))))) = Str ''QUALITYASSURANCE''"
    by code_simp
  from department_is_canonicalised[OF run wf h3 h4 a2 b2 c2]
  have r2: "\<exists>ds'. getcol department_cleaned ''Department'' = Inr ds' \<and>
      ds' ! out_pos (keep_mask [IntV 11, IntV 12, IntV 13]) 2 = Str ''QUALITYASSURANCE''"
    by (simp only: e2)
  from run wf h3 h4 a0 b0 c0 a1 b1 c1 a2 b2 c2 r0 r1 r2 show ?thesis by (intro conjI)
qed

text \<open>
  C3. In the table \<^verbatim>\<open>clean_data\<close> returns, every Date_of_Joining is a string of the form
  \<^verbatim>\<open>YYYY-MM-DD\<close>, none is missing. For a row of the input that deduplication keeps, the
  date in the result is the ISO form of the date that \<^verbatim>\<open>to_datetime\<close> read from the row's
  raw value, when it read one, and the literal \<^verbatim>\<open>1900-01-01\<close> otherwise; a raw value that is
  missing always gives \<^verbatim>\<open>1900-01-01\<close>.
\<close>

theorem join_dates_are_iso:
  assumes "clean_data U P df = Inr out" and "wf_df df"
    and "getcol df (id_column df) = Inr ids" and "getcol df ''Date_of_Joining'' = Inr dates"
  shows "\<exists>ds'. getcol out ''Date_of_Joining'' = Inr ds' \<and>
           (\<forall>y\<in>set ds'. \<exists>s. y = StrV s \<and> matches_ymd s) \<and>
           (\<forall>i<length ids. keep_mask ids ! i \<longrightarrow>
              ds' ! out_pos (keep_mask ids) i =
                (case to_datetime1 P dates (dates ! i) of
                   TsV d \<Rightarrow> StrV (strftime_ymd d) | _ \<Rightarrow> Str ''1900-01-01'') \<and>
              (dates ! i = Null \<longrightarrow> ds' ! out_pos (keep_mask ids) i = Str ''1900-01-01''))"
proof -
  let ?ds = "select (keep_mask ids) (map (clean_cell U P dates ''Date_of_Joining'') dates)"
  from clean_data_column[OF assms(1)] obtain dates' ids' where
    all: "getcol df ''Date_of_Joining'' = Inr dates' \<and>
          getcol df (id_column df) = Inr ids' \<and>
          getcol out (id_column df) = Inr (select (keep_mask ids') ids') \<and>
          (\<forall>c xs. c \<noteq> ''Date_Parsed'' \<and> getcol df c = Inr xs \<longrightarrow>
              getcol out c = Inr (select (keep_mask ids') (map (clean_cell U P dates' c) xs)))"
    by (elim exE)
  from all have A: "getcol df ''Date_of_Joining'' = Inr dates'"
    and B: "getcol df (id_column df) = Inr ids'" by (rule conjunct1, rule conjunct2[THEN conjunct1])
  from all have Call: "\<forall>c xs. c \<noteq> ''Date_Parsed'' \<and> getcol df c = Inr xs \<longrightarrow>
              getcol out c = Inr (select (keep_mask ids') (map (clean_cell U P dates' c) xs))"
    by (elim conjE)
  have C: "getcol out c = Inr (select (keep_mask ids') (map (clean_cell U P dates' c) xs))"
    if "c \<noteq> ''Date_Parsed''" and "getcol df c = Inr xs" for c xs
    using Call[rule_format, OF conjI, OF that] .
  have eq: "dates' = dates" "ids' = ids"
    using trans[OF A[symmetric] assms(4)] trans[OF B[symmetric] assms(3)]
    by (simp_all only: sum.inject)
  have "''Date_of_Joining'' \<noteq> ''Date_Parsed''" by simp
  from C[OF this A] have out: "getcol out ''Date_of_Joining'' = Inr ?ds"
    by (simp only: eq)
  have a: "\<forall>y\<in>set ?ds. \<exists>s. y = StrV s \<and> matches_ymd s"
  proof
    fix y assume "y \<in> set ?ds"
    then have "y \<in> set (map (clean_cell U P dates ''Date_of_Joining'') dates)"
      by (rule set_select_subset[THEN subsetD])
    then obtain x where "y = iso_or_default P dates x"
      by (auto simp only: clean_cell_date set_map)
    then show "\<exists>s. y = StrV s \<and> matches_ymd s"
      using iso_or_default_matches[of P dates x] by simp
  qed
  have b: "\<forall>i<length ids. keep_mask ids ! i \<longrightarrow>
              ?ds ! out_pos (keep_mask ids) i =
                (case to_datetime1 P dates (dates ! i) of
                   TsV d \<Rightarrow> StrV (strftime_ymd d) | _ \<Rightarrow> Str ''1900-01-01'') \<and>
              (dates ! i = Null \<longrightarrow> ?ds ! out_pos (keep_mask ids) i = Str ''1900-01-01'')"
  proof (intro allI impI)
    fix i assume i: "i < length ids" and k: "keep_mask ids ! i"
    from clean_data_row[OF assms(1,2,3,4,4) _ i k] out
    have r: "?ds ! out_pos (keep_mask ids) i = iso_or_default P dates (dates ! i)"
      by (simp add: clean_cell_date)
    show "?ds ! out_pos (keep_mask ids) i =
                (case to_datetime1 P dates (dates ! i) of
                   TsV d \<Rightarrow> StrV (strftime_ymd d) | _ \<Rightarrow> Str ''1900-01-01'') \<and>
              (dates ! i = Null \<longrightarrow> ?ds ! out_pos (keep_mask ids) i = Str ''1900-01-01'')"
    proof (intro conjI impI)
      show "?ds ! out_pos (keep_mask ids) i =
                (case to_datetime1 P dates (dates ! i) of
                   TsV d \<Rightarrow> StrV (strftime_ymd d) | _ \<Rightarrow> Str ''1900-01-01'')"
        unfolding r by (rule iso_or_default_cases)
    next
      assume "dates ! i = Null"
      then have "to_datetime1 P dates (dates ! i) = Null" by (simp add: to_datetime1_def isnull_def)
      then show "?ds ! out_pos (keep_mask ids) i = Str ''1900-01-01''"
        unfolding r iso_or_default_cases by simp
    qed
  qed
  show ?thesis
    by (rule exI[of _ ?ds]) (intro conjI out a b)
qed

text \<open>C3 at the example table, read with the ISO parser.\<close>

theorem join_dates_are_iso_witness:
  "clean_data example_ucd iso_parser raw_example = Inr cleaned_example \<and> wf_df raw_example \<and>
   getcol raw_example (id_column raw_example) = Inr [IntV 1, IntV 1, IntV 2, Null, Null] \<and>
   getcol raw_example ''Date_of_Joining'' = Inr [Str ''13-01-2022'', Str ''2022-01-13'', Str ''not-a-date'', Str ''2021-03-04'', Null] \<and>
   (\<exists>ds'. getcol cleaned_example ''Date_of_Joining'' = Inr ds' \<and>
           (\<forall>y\<in>set ds'. \<exists>s. y = StrV s \<and> matches_ymd s) \<and>
           (\<forall>i<length [IntV 1, IntV 1, IntV 2, Null, Null]. keep_mask [IntV 1, IntV 1, IntV 2, Null, Null] ! i \<longrightarrow>
              ds' ! out_pos (keep_mask [IntV 1, IntV 1, IntV 2, Null, Null]) i =
                (case to_datetime1 iso_parser [Str ''13-01-2022'', Str ''2022-01-13'', Str ''not-a-date'', Str ''2021-03-04'', Null] ([Str ''13-01-2022'', Str ''2022-01-13'', Str ''not-a-date'', Str ''2021-03-04'', Null] ! i) of
                   TsV d \<Rightarrow> StrV (strftime_ymd d) | _ \<Rightarrow> Str ''1900-01-01'') \<and>
              ([Str ''13-01-2022'', Str ''2022-01-13'', Str ''not-a-date'', Str ''2021-03-04'', Null] ! i = Null \<longrightarrow> ds' ! out_pos (keep_mask [IntV 1, IntV 1, IntV 2, Null, Null]) i = Str ''1900-01-01'')))"
proof -
  have wf: "wf_df raw_example" by code_simp
  have h3: "getcol raw_example (id_column raw_example) = Inr [IntV 1, IntV 1, IntV 2, Null, Null]" by code_simp
  have h4: "getcol raw_example ''Date_of_Joining'' = Inr [Str ''13-01-2022'', Str ''2022-01-13'', Str ''not-a-date'', Str ''2021-03-04'', Null]" by code_simp
  from join_dates_are_iso[OF clean_raw_example wf h3 h4] clean_raw_example wf h3 h4
  show ?thesis by (intro conjI)
qed

text \<open>
  C1, amended. The specification asks that a duplicate key at the canonical insert
  reaches the caller as an error. The program catches it: when the nine columns can be
  selected and the insert fails on a duplicate Employee_ID, the function prints the error,
  commits nothing (the canonical table stays as it was), goes on to print the preview and
  the row count of the table and to export it, and returns normally to its caller.
\<close>

theorem duplicate_key_is_reported_not_raised:
  assumes "select_cols cleaned_df
             [id_column cleaned_df, ''Name'', ''Age'', ''Department'', ''Date_of_Joining'',
              ''Years_of_Experience'', ''Country'', ''Salary'', ''Performance_Rating''] = Inr proj"
    and "insert_rows (employee_data db) (to_rows proj) = Inl (DuplicateEntry k)"
  shows "load_clean_data_to_final_table db cleaned_df =
           (Inr (),
            db\<lparr>csv_file := Some (employee_data db)\<rparr>,
            map SampleRow (take 5 (to_rows proj)) @
              [InsertError (DuplicateEntry k), Preview (take 5 (employee_data db)),
               TotalRecords (length (employee_data db)), Exported])"
  unfolding load_clean_data_to_final_table_def assms(1) by (simp add: Let_def assms(2))

text \<open>The amended C1 at a cleaned table with the identifier 1 twice, on an empty store.\<close>

theorem duplicate_key_is_reported_not_raised_witness:
  "select_cols duplicate_key_example
     [id_column duplicate_key_example, ''Name'', ''Age'', ''Department'', ''Date_of_Joining'',
      ''Years_of_Experience'', ''Country'', ''Salary'', ''Performance_Rating''] =
     Inr duplicate_key_example \<and>
   insert_rows (employee_data empty_store) (to_rows duplicate_key_example) =
     Inl (DuplicateEntry (IntV 1)) \<and>
   load_clean_data_to_final_table empty_store duplicate_key_example =
     (Inr (),
      empty_store\<lparr>csv_file := Some (employee_data empty_store)\<rparr>,
      map SampleRow (take 5 (to_rows duplicate_key_example)) @
        [InsertError (DuplicateEntry (IntV 1)), Preview (take 5 (employee_data empty_store)),
         TotalRecords (length (employee_data empty_store)), Exported])"
proof -
  have h1: "select_cols duplicate_key_example
     [id_column duplicate_key_example, ''Name'', ''Age'', ''Department'', ''Date_of_Joining'',
      ''Years_of_Experience'', ''Country'', ''Salary'', ''Performance_Rating''] =
     Inr duplicate_key_example" by code_simp
  have h2: "insert_rows (employee_data empty_store) (to_rows duplicate_key_example) =
     Inl (DuplicateEntry (IntV 1))" by code_simp
  from duplicate_key_is_reported_not_raised[OF h1 h2] h1 h2 show ?thesis by (intro conjI)
qed

text \<open>
  C1 as stated fails: for the cleaned table with the identifier 1 twice and an empty
  store the call returns normally (\<open>Inr ()\<close>, no exception), the table stays empty, and
  the failure is only one of the lines printed.
\<close>

theorem duplicate_key_is_swallowed:
  "load_clean_data_to_final_table empty_store duplicate_key_example =
     (Inr (),
      \<lparr>employee_data = [], csv_file = Some []\<rparr>,
      [SampleRow [IntV 1, Str ''John Doe'', IntV 30, Str ''MARKETING'', Str ''2022-01-13'',
                  IntV 5, Str ''Usa'', IntV 50000, Str ''Good''],
       SampleRow [IntV 1, Str ''Jane Roe'', IntV 28, Str ''OPERATIONS'', Str ''1900-01-01'',
                  IntV (- 1), Str ''Unknown'', IntV 40000, Str ''Unknown''],
       InsertError (DuplicateEntry (IntV 1)),
       Preview [], TotalRecords 0, Exported])"
  by code_simp

text \<open>
  C9. \<^verbatim>\<open>profile_data\<close> works on the caller's table in place: it appends the working
  column \<^verbatim>\<open>Parsed_Date\<close> to it and drops that column again. A table read from the staging
  store has no column of that name, and for every table without a column of that name the
  table after the call is the table before the call, columns and values.
\<close>

theorem profile_data_leaves_table:
  assumes "''Parsed_Date'' \<notin> set (columns df)"
  shows "snd (profile_data P df) = df"
proof (cases "df = []")
  case True
  then show ?thesis by (simp add: profile_data_def)
next
  case False
  show ?thesis
  proof (cases "ebind (getcol df (id_column df)) (\<lambda>ids.
             ebind (getcol df ''Name'') (\<lambda>names.
             Inr (filter_rows (duplicated_all (zip ids names)) df)))")
    case (Inl e)
    with False show ?thesis by (simp add: profile_data_def)
  next
    case (Inr dups)
    then have idc: "id_column df \<in> set (columns df)"
      by (auto simp: ebind_Inr getcol_Inr in_columns)
    show ?thesis
    proof (cases "getcol df (date_column df)")
      case (Inl e)
      with False Inr show ?thesis by (simp add: profile_data_def)
    next
      case dates: (Inr dates)
      then have dc: "date_column df \<in> set (columns df)" by (auto simp: getcol_Inr in_columns)
      define df1 where "df1 = setcol df ''Parsed_Date'' (to_datetime P dates)"
      have c1: "set (columns df) \<subseteq> set (columns df1)"
        by (auto simp: df1_def setcol_def columns_def dom_update)
      have p1: "getcol df1 ''Parsed_Date'' = Inr (to_datetime P dates)"
        by (simp add: df1_def setcol_def getcol_def update_conv')
      have "date_column df \<noteq> ''Parsed_Date''" by (simp add: date_column_def)
      then have p2: "getcol df1 (date_column df) = Inr dates"
        using dates by (simp add: df1_def setcol_def getcol_def update_conv')
      have "set [id_column df, date_column df] \<subseteq> set (columns (filter_rows ks df1))" for ks
        using idc dc c1 by (auto simp: columns_filter_rows)
      from select_cols_ok[OF this] obtain invalid where
        p3: "select_cols (filter_rows (map (\<lambda>(p, d). isnull p \<and> \<not> isnull d)
                 (zip (to_datetime P dates) dates)) df1) [id_column df, date_column df] = Inr invalid"
        by blast
      have p4: "dropcol df1 ''Parsed_Date'' = Inr df"
        using assms by (simp add: dropcol_def df1_def setcol_def columns_def dom_update
            delete_working_column[unfolded columns_def])
      have p5: "ebind (getcol df1 ''Parsed_Date'') (\<lambda>parsed.
                 ebind (getcol df1 (date_column df)) (\<lambda>raw.
                 select_cols
                   (filter_rows (map (\<lambda>(p, d). isnull p \<and> \<not> isnull d) (zip parsed raw)) df1)
                   [id_column df, date_column df])) = Inr invalid"
        unfolding p1 p2 ebind_def by (simp only: sum.case p3)
      show ?thesis
        unfolding profile_data_def Let_def
        using False
        by (simp add: Inr dates p5[unfolded df1_def] p4[unfolded df1_def]
            del: select_cols.simps split: sum.splits)
    qed
  qed
qed

text \<open>C9 at the example table, which has the columns of the staging store.\<close>

theorem profile_data_leaves_table_witness:
  "columns raw_example = staging_columns \<and> ''Parsed_Date'' \<notin> set (columns raw_example) \<and>
   snd (profile_data iso_parser raw_example) = raw_example"
proof -
  have h: "''Parsed_Date'' \<notin> set (columns raw_example)" by code_simp
  have c: "columns raw_example = staging_columns" by code_simp
  from profile_data_leaves_table[OF h, of iso_parser] h c show ?thesis by (intro conjI)
qed




end
